theory Spec2Isabelle
  imports Main
begin

section \<open>Embedded sign-in flow engine (BaseSignIn)\<close>

text \<open>
  A shallow embedding of the sign-in component \<^verbatim>\<open>BaseSignInContent\<close>: the classifier
  \<^verbatim>\<open>isPasskeyAuthenticator\<close>, the redirect popup coordinator created by
  \<^verbatim>\<open>handleRedirectionIfNeeded\<close> (message listener, poll timer, \<^verbatim>\<open>cleanup\<close>), the
  handlers \<^verbatim>\<open>handleSubmit\<close> and \<^verbatim>\<open>handleAuthenticatorSelection\<close>, the initialize effect
  and the branch structure of the render function.

  React state is a record that every handler takes and returns. Calls that leave the
  component (the caller-supplied callbacks, the browser) are appended to \<open>trace\<close> in the
  order the code makes them. What the outside world answers is scripted: each call of
  \<^verbatim>\<open>onSubmit\<close> consumes the head of \<open>submitScript\<close>, each credential ceremony the head of
  \<open>webAuthnScript\<close>; an empty script is a promise that never settles, and the handler
  then stays suspended at its \<^verbatim>\<open>await\<close> (nothing after it runs, its \<^verbatim>\<open>finally\<close> included).
  A handler runs from one \<^verbatim>\<open>await\<close> to its end as one step.
\<close>

subsection \<open>Data model\<close>

datatype prompt_type = UserPrompt | InternalPrompt | RedirectionPrompt

datatype step_type = AuthenticatorPrompt | MultiOptionsPrompt | OtherPrompt

datatype flow_status = InProgress | SuccessCompleted | FailCompleted | FailIncomplete

record authenticatorParam =
  param :: string

record additional_data =
  challengeData :: "string option"
  redirectUrl :: "string option"

record auth_metadata =
  promptType :: "prompt_type option"
  params :: "authenticatorParam list option"
  additionalData :: "additional_data option"

record authenticator =
  authenticatorId :: string
  idp :: string
  metadata :: "auth_metadata option"
  requiredParams :: "string list"

record flowMessage =
  msgType :: "string option"
  msgText :: "string option"

text \<open>An absent \<^verbatim>\<open>authenticators\<close> array behaves as the empty one in every test the code
  makes (\<^verbatim>\<open>?.length > 0\<close>, \<^verbatim>\<open>&& length === 1\<close>), so the field is a plain list.\<close>

record step =
  stepType :: step_type
  authenticators :: "authenticator list"
  stepMessages :: "flowMessage list option"

record link =
  linkMethod :: string
  href :: string

text \<open>\<open>flowId = None\<close> and \<open>nextStep = None\<close> stand for a response object without that key.\<close>

record flowResponse =
  flowId :: "string option"
  flowStatus :: flow_status
  nextStep :: "step option"
  links :: "link list"
  authData :: "(string \<times> string) list option"

record selection =
  selAuthenticatorId :: string
  selParams :: "(string \<times> string) list"

record payload =
  payloadFlowId :: "string option"
  selectedAuthenticator :: selection

record request =
  reqMethod :: string
  reqUrl :: string

text \<open>Values a promise of the outside world can reject with: an \<^verbatim>\<open>AsgardeoAPIError\<close>, any
  other \<^verbatim>\<open>Error\<close> (both with their message), or a value that is no \<^verbatim>\<open>Error\<close> at all.\<close>

datatype thrown = APIError string | PlainError string | NonError

text \<open>Everything a handler can find in a \<^verbatim>\<open>catch\<close>: a rejection from outside, the
  \<^verbatim>\<open>Error\<close> of line 571, or the \<^verbatim>\<open>TypeError\<close> of \<^verbatim>\<open>links[0].method\<close> on an empty array.\<close>

datatype raised = Thrown thrown | MissingChallengeData | TypeError

datatype 'a outcome = Resolves 'a | Rejects thrown

datatype console_msg =
    FailedToOpenPopup
  | OAuthError string
  | PasskeyAuthenticationError raised

datatype effect =
    OnInitialize
  | OnSubmit payload request
  | OnFlowChange flowResponse
  | OnSuccess "(string \<times> string) list option"
  | OnError raised
  | WebAuthn string
  | WindowOpen string
  | AddMessageListener
  | SetInterval
  | PopupClose
  | RemoveMessageListener
  | ClearInterval
  | ConsoleError console_msg

text \<open>Props of the component and the parts of the browser the code reads.
  \<open>passkeyId\<close> is \<^verbatim>\<open>ApplicationNativeAuthenticationConstants.SupportedAuthenticators.Passkey\<close>,
  \<open>translate\<close> is \<^verbatim>\<open>t\<close>, \<open>urlOrigin u\<close> is \<^verbatim>\<open>new URL(u).origin\<close> (\<open>None\<close> when the constructor
  throws), \<open>searchParam u k\<close> is \<^verbatim>\<open>new URL(u).searchParams.get(k)\<close>, \<open>popupBlocked\<close> says
  that \<^verbatim>\<open>window.open\<close> returns null, \<open>onInitializeResult\<close> is how the promise of
  \<^verbatim>\<open>onInitialize()\<close> settles (\<open>None\<close>: never).\<close>

record env =
  afterSignInUrl :: "string option"
  externalIsLoading :: bool
  translate :: "string \<Rightarrow> string"
  passkeyId :: string
  windowOrigin :: string
  urlOrigin :: "string \<Rightarrow> string option"
  searchParam :: "string \<Rightarrow> string \<Rightarrow> string option"
  popupBlocked :: bool
  onInitializeResult :: "flowResponse outcome option"
  typeErrorMessage :: string

text \<open>One call of \<^verbatim>\<open>handleRedirectionIfNeeded\<close> that opened a popup: the values its closures
  captured and the resources it holds.\<close>

record attempt =
  attemptFlow :: flowResponse
  responseAuthenticator :: authenticator
  listenerAttached :: bool
  timerActive :: bool
  hasProcessedCallback :: bool
  popupClosed :: bool

record state =
  isSignInInitializationRequestLoading :: bool
  isInitialized :: bool
  currentFlow :: "flowResponse option"
  currentAuthenticator :: "authenticator option"
  error :: "string option"
  messages :: "(string \<times> string) list"
  reRenderCheckRef :: bool
  formValues :: "(string \<times> string) list"
  formTouched :: bool
  attempts :: "attempt list"
  trace :: "effect list"
  submitScript :: "flowResponse outcome list"
  webAuthnScript :: "string outcome list"

subsection \<open>JavaScript values\<close>

text \<open>Truthiness of an optional string: \<^verbatim>\<open>undefined\<close>, \<^verbatim>\<open>null\<close> and \<^verbatim>\<open>''\<close> are falsy.\<close>

definition truthy :: "string option \<Rightarrow> bool" where
  "truthy v = (case v of None \<Rightarrow> False | Some s \<Rightarrow> s \<noteq> [])"

text \<open>\<^verbatim>\<open>v || d\<close> on an optional string.\<close>

definition orDefault :: "string option \<Rightarrow> string \<Rightarrow> string" where
  "orDefault v d = (case v of None \<Rightarrow> d | Some s \<Rightarrow> if s = [] then d else s)"

fun startsWith :: "string \<Rightarrow> string \<Rightarrow> bool" where
  "startsWith s [] = True"
| "startsWith [] (p # ps) = False"
| "startsWith (c # cs) (p # ps) = (c = p \<and> startsWith cs ps)"

text \<open>\<^verbatim>\<open>s.includes(p)\<close>.\<close>

fun includesStr :: "string \<Rightarrow> string \<Rightarrow> bool" where
  "includesStr [] p = (p = [])"
| "includesStr (c # cs) p = (startsWith (c # cs) p \<or> includesStr cs p)"

text \<open>The characters \<^verbatim>\<open>trim\<close> strips (white space and line terminators), among those
  a \<open>char\<close> holds: tab, line feed, vertical tab, form feed, carriage return, space and
  the no-break space U+00A0.\<close>

definition isWhitespace :: "char \<Rightarrow> bool" where
  "isWhitespace c =
     (c \<in> set [CHR 0x09, CHR 0x0A, CHR 0x0B, CHR 0x0C, CHR 0x0D, CHR 0x20, CHR 0xA0])"

text \<open>\<^verbatim>\<open>!value || value.trim() === ''\<close>.\<close>

definition blank :: "string \<Rightarrow> bool" where
  "blank v = list_all isWhitespace v"

subsection \<open>AuthenticatorClassifier\<close>

definition promptTypeOf :: "authenticator \<Rightarrow> prompt_type option" where
  "promptTypeOf a = (case metadata a of None \<Rightarrow> None | Some m \<Rightarrow> promptType m)"

definition challengeDataOf :: "authenticator \<Rightarrow> string option" where
  "challengeDataOf a =
     (case metadata a of None \<Rightarrow> None
      | Some m \<Rightarrow> (case additionalData m of None \<Rightarrow> None | Some d \<Rightarrow> challengeData d))"

definition redirectUrlOf :: "authenticator \<Rightarrow> string option" where
  "redirectUrlOf a =
     (case metadata a of None \<Rightarrow> None
      | Some m \<Rightarrow> (case additionalData m of None \<Rightarrow> None | Some d \<Rightarrow> redirectUrl d))"

text \<open>\<^verbatim>\<open>authenticator.metadata?.params\<close>, with the absent array read as empty (every use
  is \<^verbatim>\<open>?.forEach\<close>, \<^verbatim>\<open>?.map(...) || []\<close> or \<^verbatim>\<open>&& length > 0\<close>).\<close>

definition paramsOf :: "authenticator \<Rightarrow> authenticatorParam list" where
  "paramsOf a =
     (case metadata a of None \<Rightarrow> []
      | Some m \<Rightarrow> (case params m of None \<Rightarrow> [] | Some ps \<Rightarrow> ps))"

definition isPasskeyAuthenticator :: "env \<Rightarrow> authenticator \<Rightarrow> bool" where
  "isPasskeyAuthenticator e a =
     (authenticatorId a = passkeyId e \<and>
      promptTypeOf a = Some InternalPrompt \<and>
      truthy (challengeDataOf a))"

definition HIDDEN_AUTHENTICATORS :: "string list" where
  "HIDDEN_AUTHENTICATORS = [''T3JnYW5pemF0aW9uQXV0aGVudGljYXRvcjpTU08'']"

subsection \<open>The submit transport\<close>

datatype submit_result = Pending | Threw raised | Returned flowResponse

text \<open>\<^verbatim>\<open>await onSubmit(payload, {method: currentFlow?.links[0].method, url: ...})\<close>: the
  arguments are evaluated first, so an empty \<^verbatim>\<open>links\<close> throws before the transport is
  called.\<close>

definition awaitOnSubmit :: "flowResponse \<Rightarrow> payload \<Rightarrow> state \<Rightarrow> submit_result \<times> state" where
  "awaitOnSubmit cf p st =
     (case links cf of
        [] \<Rightarrow> (Threw TypeError, st)
      | l # _ \<Rightarrow>
          let st1 = st\<lparr>trace := trace st @ [OnSubmit p \<lparr>reqMethod = linkMethod l, reqUrl = href l\<rparr>]\<rparr>
          in (case submitScript st of
                [] \<Rightarrow> (Pending, st1)
              | Resolves r # rest \<Rightarrow> (Returned r, st1\<lparr>submitScript := rest\<rparr>)
              | Rejects x # rest \<Rightarrow> (Threw (Thrown x), st1\<lparr>submitScript := rest\<rparr>)))"

definition mkPayload :: "flowResponse \<Rightarrow> authenticator \<Rightarrow> (string \<times> string) list \<Rightarrow> payload" where
  "mkPayload cf a ps =
     \<lparr>payloadFlowId = flowId cf,
      selectedAuthenticator = \<lparr>selAuthenticatorId = authenticatorId a, selParams = ps\<rparr>\<rparr>"

subsection \<open>RedirectCompletionCoordinator\<close>

datatype event_source = FromPopup | FromElsewhere

record messageData =
  dataCode :: "string option"
  dataState :: "string option"

text \<open>\<open>evData = None\<close> is an \<^verbatim>\<open>event.data\<close> that cannot be destructured (null or undefined).\<close>

record messageEvent =
  evSource :: event_source
  evOrigin :: string
  evData :: "messageData option"

text \<open>What reading \<^verbatim>\<open>popup.location.href\<close> gives at a tick.\<close>

datatype location_read = CrossOriginBlocked | Href string

definition cleanup :: "attempt \<times> state \<Rightarrow> attempt \<times> state" where
  "cleanup x =
     (case x of (a, st) \<Rightarrow>
        (a\<lparr>listenerAttached := False, timerActive := False\<rparr>,
         st\<lparr>trace := trace st @ [RemoveMessageListener, ClearInterval]\<rparr>))"

definition expectedOrigin :: "env \<Rightarrow> string option" where
  "expectedOrigin e =
     (case afterSignInUrl e of
        None \<Rightarrow> Some (windowOrigin e)
      | Some u \<Rightarrow> if u = [] then Some (windowOrigin e) else urlOrigin e u)"

definition messageEventHandler :: "env \<Rightarrow> messageEvent \<Rightarrow> attempt \<times> state \<Rightarrow> attempt \<times> state" where
  "messageEventHandler e ev x =
     (case x of (a, st) \<Rightarrow>
        if evSource ev \<noteq> FromPopup then (a, st)
        else (case expectedOrigin e of
                None \<Rightarrow> (a, st)
              | Some eo \<Rightarrow>
                  if evOrigin ev \<noteq> eo \<and> evOrigin ev \<noteq> windowOrigin e then (a, st)
                  else (case evData ev of
                          None \<Rightarrow> (a, st)
                        | Some d \<Rightarrow>
                            (case (dataCode d, dataState d) of
                               (Some c, Some s) \<Rightarrow>
                                 if c \<noteq> [] \<and> s \<noteq> [] then
                                   (case awaitOnSubmit (attemptFlow a)
                                           (mkPayload (attemptFlow a) (responseAuthenticator a)
                                              [(''code'', c), (''state'', s)]) st of
                                      (Returned r, st1) \<Rightarrow>
                                        cleanup (a\<lparr>popupClosed := True\<rparr>,
                                                 st1\<lparr>trace := trace st1 @ [PopupClose]\<rparr>)
                                    | (_, st1) \<Rightarrow> (a, st1))
                                 else (a, st)
                             | _ \<Rightarrow> (a, st)))))"

definition popupMonitor :: "env \<Rightarrow> location_read \<Rightarrow> attempt \<times> state \<Rightarrow> attempt \<times> state" where
  "popupMonitor e obs x =
     (case x of (a, st) \<Rightarrow>
        if popupClosed a then cleanup (a, st)
        else if hasProcessedCallback a then (a, st)
        else (case obs of
                CrossOriginBlocked \<Rightarrow> (a, st)
              | Href popupUrl \<Rightarrow>
                  if popupUrl \<noteq> [] \<and> (includesStr popupUrl ''code='' \<or> includesStr popupUrl ''error='') then
                    let a1 = a\<lparr>hasProcessedCallback := True\<rparr> in
                    if truthy (searchParam e popupUrl ''error'') then
                      cleanup (a1\<lparr>popupClosed := True\<rparr>,
                               st\<lparr>trace := trace st @
                                     [ConsoleError (OAuthError (orDefault (searchParam e popupUrl ''error'') [])),
                                      PopupClose]\<rparr>)
                    else (case (searchParam e popupUrl ''code'', searchParam e popupUrl ''state'') of
                            (Some c, Some s) \<Rightarrow>
                              if c \<noteq> [] \<and> s \<noteq> [] then
                                (case awaitOnSubmit (attemptFlow a)
                                        (mkPayload (attemptFlow a) (responseAuthenticator a)
                                           [(''code'', c), (''state'', s)]) st of
                                   (Returned r, st1) \<Rightarrow>
                                     (a1\<lparr>popupClosed := True\<rparr>,
                                      st1\<lparr>trace := trace st1 @ [PopupClose, OnFlowChange r] @
                                             (if flowStatus r = SuccessCompleted
                                              then [OnSuccess (authData r)] else [])\<rparr>)
                                 | (_, st1) \<Rightarrow> (a1, st1))
                              else (a1, st)
                          | _ \<Rightarrow> (a1, st))
                  else (a, st)))"

text \<open>What the browser does with the registrations: a message reaches the handler only
  while the listener is registered, a tick fires only while the interval is set, and the
  user can close the popup at any time.\<close>

datatype event = Message messageEvent | Tick location_read | UserClosesPopup

definition deliver :: "env \<Rightarrow> attempt \<times> state \<Rightarrow> event \<Rightarrow> attempt \<times> state" where
  "deliver e x ev =
     (case ev of
        Message m \<Rightarrow> if listenerAttached (fst x) then messageEventHandler e m x else x
      | Tick obs \<Rightarrow> if timerActive (fst x) then popupMonitor e obs x else x
      | UserClosesPopup \<Rightarrow> ((fst x)\<lparr>popupClosed := True\<rparr>, snd x))"

definition deliverAll :: "env \<Rightarrow> event list \<Rightarrow> attempt \<times> state \<Rightarrow> attempt \<times> state" where
  "deliverAll e evs x = foldl (deliver e) x evs"

text \<open>\<open>deliver\<close> runs a handler from its call to its end as one step. The two handlers
  are \<^verbatim>\<open>async\<close> functions: called by the browser, each runs up to its \<^verbatim>\<open>await onSubmit(...)\<close>
  (lines 357 and 426) and returns to the event loop; what follows the \<^verbatim>\<open>await\<close> runs when
  the promise settles, after whatever has been handled in the meantime, and whether or not
  the listener and the interval are still registered by then. The definitions below split
  each handler at its \<^verbatim>\<open>await\<close>, so that other events can be handled in between.
  \<open>continuation\<close> names the rest of a suspended handler: lines 362-363 of the message
  handler, lines 431-437 of the poll callback.\<close>

datatype continuation = AfterMessageSubmit | AfterPollSubmit

text \<open>The call of \<^verbatim>\<open>onSubmit\<close> without its answer. \<open>None\<close> is the \<^verbatim>\<open>TypeError\<close> of an empty
  \<^verbatim>\<open>links\<close>, thrown while the arguments are evaluated.\<close>

definition callOnSubmit :: "flowResponse \<Rightarrow> payload \<Rightarrow> state \<Rightarrow> state option" where
  "callOnSubmit cf p st =
     (case links cf of
        [] \<Rightarrow> None
      | l # _ \<Rightarrow> Some (st\<lparr>trace := trace st @ [OnSubmit p \<lparr>reqMethod = linkMethod l, reqUrl = href l\<rparr>]\<rparr>))"

text \<open>The message handler up to its \<^verbatim>\<open>await\<close> (lines 323-360). A \<^verbatim>\<open>TypeError\<close> rejects the
  promise the handler returns, which nothing observes.\<close>

definition messageEventHandlerCall ::
  "env \<Rightarrow> messageEvent \<Rightarrow> attempt \<times> state \<Rightarrow> (attempt \<times> state) \<times> continuation option" where
  "messageEventHandlerCall e ev x =
     (case x of (a, st) \<Rightarrow>
        if evSource ev \<noteq> FromPopup then ((a, st), None)
        else (case expectedOrigin e of
                None \<Rightarrow> ((a, st), None)
              | Some eo \<Rightarrow>
                  if evOrigin ev \<noteq> eo \<and> evOrigin ev \<noteq> windowOrigin e then ((a, st), None)
                  else (case evData ev of
                          None \<Rightarrow> ((a, st), None)
                        | Some d \<Rightarrow>
                            (case (dataCode d, dataState d) of
                               (Some c, Some s) \<Rightarrow>
                                 if c \<noteq> [] \<and> s \<noteq> [] then
                                   (case callOnSubmit (attemptFlow a)
                                           (mkPayload (attemptFlow a) (responseAuthenticator a)
                                              [(''code'', c), (''state'', s)]) st of
                                      None \<Rightarrow> ((a, st), None)
                                    | Some st1 \<Rightarrow> ((a, st1), Some AfterMessageSubmit))
                                 else ((a, st), None)
                             | _ \<Rightarrow> ((a, st), None)))))"

text \<open>The poll callback up to its \<^verbatim>\<open>await\<close> (lines 381-429). A \<^verbatim>\<open>TypeError\<close> is caught by the
  inner \<^verbatim>\<open>catch\<close> of line 440.\<close>

definition popupMonitorCall ::
  "env \<Rightarrow> location_read \<Rightarrow> attempt \<times> state \<Rightarrow> (attempt \<times> state) \<times> continuation option" where
  "popupMonitorCall e obs x =
     (case x of (a, st) \<Rightarrow>
        if popupClosed a then (cleanup (a, st), None)
        else if hasProcessedCallback a then ((a, st), None)
        else (case obs of
                CrossOriginBlocked \<Rightarrow> ((a, st), None)
              | Href popupUrl \<Rightarrow>
                  if popupUrl \<noteq> [] \<and> (includesStr popupUrl ''code='' \<or> includesStr popupUrl ''error='') then
                    let a1 = a\<lparr>hasProcessedCallback := True\<rparr> in
                    if truthy (searchParam e popupUrl ''error'') then
                      (cleanup (a1\<lparr>popupClosed := True\<rparr>,
                                st\<lparr>trace := trace st @
                                      [ConsoleError (OAuthError (orDefault (searchParam e popupUrl ''error'') [])),
                                       PopupClose]\<rparr>), None)
                    else (case (searchParam e popupUrl ''code'', searchParam e popupUrl ''state'') of
                            (Some c, Some s) \<Rightarrow>
                              if c \<noteq> [] \<and> s \<noteq> [] then
                                (case callOnSubmit (attemptFlow a)
                                        (mkPayload (attemptFlow a) (responseAuthenticator a)
                                           [(''code'', c), (''state'', s)]) st of
                                   None \<Rightarrow> ((a1, st), None)
                                 | Some st1 \<Rightarrow> ((a1, st1), Some AfterPollSubmit))
                              else ((a1, st), None)
                          | _ \<Rightarrow> ((a1, st), None))
                  else ((a, st), None)))"

text \<open>The rest of a suspended handler, run when its \<^verbatim>\<open>onSubmit\<close> promise settles. The
  message handler closes the popup and releases; the poll callback closes the popup and
  reports the answer. A rejection ends the message handler (its promise rejects) and is
  swallowed by the inner \<^verbatim>\<open>catch\<close> of the poll callback.\<close>

definition resume :: "continuation \<Rightarrow> flowResponse outcome \<Rightarrow> attempt \<times> state \<Rightarrow> attempt \<times> state" where
  "resume k answer x =
     (case x of (a, st) \<Rightarrow>
        (case answer of
           Rejects err \<Rightarrow> (a, st)
         | Resolves r \<Rightarrow>
             (case k of
                AfterMessageSubmit \<Rightarrow>
                  cleanup (a\<lparr>popupClosed := True\<rparr>, st\<lparr>trace := trace st @ [PopupClose]\<rparr>)
              | AfterPollSubmit \<Rightarrow>
                  (a\<lparr>popupClosed := True\<rparr>,
                   st\<lparr>trace := trace st @ [PopupClose, OnFlowChange r] @
                          (if flowStatus r = SuccessCompleted then [OnSuccess (authData r)] else [])\<rparr>))))"

text \<open>The event loop: the browser's events, each handled up to the handler's \<^verbatim>\<open>await\<close>,
  and the settling of the \<open>n\<close>-th pending submission, which resumes the handler suspended
  on it. The answers come with the events here, not from \<open>submitScript\<close>.\<close>

datatype async_event = Handled event | Settles nat "flowResponse outcome"

definition asyncStep ::
  "env \<Rightarrow> (attempt \<times> state) \<times> continuation list \<Rightarrow> async_event \<Rightarrow>
     (attempt \<times> state) \<times> continuation list" where
  "asyncStep e c ev =
     (case c of (x, suspended) \<Rightarrow>
        (case ev of
           Handled (Message m) \<Rightarrow>
             if listenerAttached (fst x) then
               (case messageEventHandlerCall e m x of
                  (x', k) \<Rightarrow> (x', suspended @ (case k of None \<Rightarrow> [] | Some k' \<Rightarrow> [k'])))
             else c
         | Handled (Tick obs) \<Rightarrow>
             if timerActive (fst x) then
               (case popupMonitorCall e obs x of
                  (x', k) \<Rightarrow> (x', suspended @ (case k of None \<Rightarrow> [] | Some k' \<Rightarrow> [k'])))
             else c
         | Handled UserClosesPopup \<Rightarrow> (((fst x)\<lparr>popupClosed := True\<rparr>, snd x), suspended)
         | Settles n answer \<Rightarrow>
             if n < length suspended then
               (resume (suspended ! n) answer x, take n suspended @ drop (Suc n) suspended)
             else c))"

definition asyncRun ::
  "env \<Rightarrow> async_event list \<Rightarrow> (attempt \<times> state) \<times> continuation list \<Rightarrow>
     (attempt \<times> state) \<times> continuation list" where
  "asyncRun e evs c = foldl (asyncStep e) c evs"

text \<open>A handler whose submission is answered at once, the answer taken from \<open>submitScript\<close>:
  this is what \<open>messageEventHandler\<close> and \<open>popupMonitor\<close> above compute.\<close>

definition settleAtOnce :: "(attempt \<times> state) \<times> continuation option \<Rightarrow> attempt \<times> state" where
  "settleAtOnce c =
     (case c of
        (x, None) \<Rightarrow> x
      | ((a, st), Some k) \<Rightarrow>
          (case submitScript st of
             [] \<Rightarrow> (a, st)
           | answer # rest \<Rightarrow> resume k answer (a, st\<lparr>submitScript := rest\<rparr>)))"

text \<open>The closures and registrations a successful \<^verbatim>\<open>window.open\<close> is followed by.\<close>

definition newAttempt :: "flowResponse \<Rightarrow> authenticator \<Rightarrow> attempt" where
  "newAttempt cf ra =
     \<lparr>attemptFlow = cf, responseAuthenticator = ra, listenerAttached = True,
      timerActive = True, hasProcessedCallback = False, popupClosed = False\<rparr>"

definition handleRedirectionIfNeeded :: "env \<Rightarrow> flowResponse \<Rightarrow> flowResponse \<Rightarrow> state \<Rightarrow> bool \<times> state" where
  "handleRedirectionIfNeeded e cf response st =
     (case nextStep response of
        None \<Rightarrow> (False, st)
      | Some s \<Rightarrow>
          if stepType s = AuthenticatorPrompt then
            (case authenticators s of
               [ra] \<Rightarrow>
                 if promptTypeOf ra = Some RedirectionPrompt \<and> truthy (redirectUrlOf ra) then
                   let st1 = st\<lparr>trace := trace st @ [WindowOpen (orDefault (redirectUrlOf ra) [])]\<rparr> in
                   if popupBlocked e then
                     (False, st1\<lparr>trace := trace st1 @ [ConsoleError FailedToOpenPopup]\<rparr>)
                   else
                     (True, st1\<lparr>trace := trace st1 @ [AddMessageListener, SetInterval],
                                attempts := attempts st1 @ [newAttempt cf ra]\<rparr>)
                 else (False, st)
             | _ \<Rightarrow> (False, st))
          else (False, st))"

subsection \<open>FormFieldProjector\<close>

record formField =
  fieldName :: string
  fieldRequired :: bool

text \<open>\<^verbatim>\<open>formFields\<close> (lines 227-238): one field per declared parameter of the current
  authenticator, none when there is no current authenticator.\<close>

definition formFields :: "authenticator option \<Rightarrow> formField list" where
  "formFields ca =
     (case ca of
        None \<Rightarrow> []
      | Some a \<Rightarrow>
          map (\<lambda>p. \<lparr>fieldName = param p, fieldRequired = (param p \<in> set (requiredParams a))\<rparr>)
              (paramsOf a))"

text \<open>The \<^verbatim>\<open>validator\<close> each field is given (lines 232-237).\<close>

definition fieldValidator :: "env \<Rightarrow> formField \<Rightarrow> string \<Rightarrow> string option" where
  "fieldValidator e f v =
     (if fieldRequired f \<and> blank v then Some (translate e ''field.required'') else None)"

text \<open>\<^verbatim>\<open>formValues[k] || ''\<close>.\<close>

definition valueOf :: "(string \<times> string) list \<Rightarrow> string \<Rightarrow> string" where
  "valueOf vs k = (case map_of vs k of None \<Rightarrow> [] | Some v \<Rightarrow> v)"

text \<open>Modelled from the spec: the \<^verbatim>\<open>useForm\<close> hook (\<^verbatim>\<open>validateForm\<close>, \<^verbatim>\<open>touchAllFields\<close>,
  \<^verbatim>\<open>reset\<close>, \<^verbatim>\<open>setValue\<close>) is not among the sources. Validation errors are missing
  required fields: \<open>validateForm\<close> runs the validator of every field the hook was given
  on that field's current value and is valid when none of them reports an error.\<close>

definition validateForm :: "env \<Rightarrow> formField list \<Rightarrow> (string \<times> string) list \<Rightarrow> bool" where
  "validateForm e fs vs = list_all (\<lambda>f. fieldValidator e f (valueOf vs (fieldName f)) = None) fs"

text \<open>Modelled from the spec: \<^verbatim>\<open>touchAllFields\<close> of the absent hook, display state only.\<close>

definition touchAllFields :: "state \<Rightarrow> state" where
  "touchAllFields st = st\<lparr>formTouched := True\<rparr>"

text \<open>Modelled from the spec: \<^verbatim>\<open>setValue\<close> of the absent hook, an object property write.\<close>

fun setValue :: "string \<Rightarrow> string \<Rightarrow> (string \<times> string) list \<Rightarrow> (string \<times> string) list" where
  "setValue k v [] = [(k, v)]"
| "setValue k v (kv # vs) = (if fst kv = k then (k, v) # vs else kv # setValue k v vs)"

text \<open>\<^verbatim>\<open>setupFormFields\<close> (lines 265-281): reset the form (to the hook's empty
  \<^verbatim>\<open>initialValues\<close>), then set every declared parameter to the empty string.\<close>

definition setupFormFields :: "authenticator \<Rightarrow> state \<Rightarrow> state" where
  "setupFormFields a st =
     st\<lparr>formValues := foldl (\<lambda>vs p. setValue (param p) [] vs) [] (paramsOf a),
        formTouched := False\<rparr>"

subsection \<open>FlowController\<close>

definition mapMessages :: "flowMessage list \<Rightarrow> (string \<times> string) list" where
  "mapMessages ms = map (\<lambda>m. (orDefault (msgType m) ''INFO'', orDefault (msgText m) [])) ms"

text \<open>\<^verbatim>\<open>if (nextStep?.messages) setMessages(...)\<close>.\<close>

definition setStepMessages :: "step \<Rightarrow> state \<Rightarrow> state" where
  "setStepMessages s st =
     (case stepMessages s of None \<Rightarrow> st | Some ms \<Rightarrow> st\<lparr>messages := mapMessages ms\<rparr>)"

text \<open>The \<^verbatim>\<open>finally\<close> block of the three asynchronous handlers.\<close>

definition finish :: "state \<Rightarrow> state" where
  "finish st = st\<lparr>isSignInInitializationRequestLoading := False\<rparr>"

text \<open>\<^verbatim>\<open>err.message\<close> when \<^verbatim>\<open>err instanceof Error\<close>.\<close>

definition errorMessage :: "env \<Rightarrow> raised \<Rightarrow> string option" where
  "errorMessage e err =
     (case err of
        Thrown (APIError m) \<Rightarrow> Some m
      | Thrown (PlainError m) \<Rightarrow> Some m
      | Thrown NonError \<Rightarrow> None
      | MissingChallengeData \<Rightarrow> Some ''Missing challenge data for passkey authentication''
      | TypeError \<Rightarrow> Some (typeErrorMessage e))"

text \<open>\<^verbatim>\<open>err.message\<close> when \<^verbatim>\<open>err instanceof AsgardeoAPIError\<close>.\<close>

definition apiErrorMessage :: "raised \<Rightarrow> string option" where
  "apiErrorMessage err = (case err of Thrown (APIError m) \<Rightarrow> Some m | _ \<Rightarrow> None)"

text \<open>The \<^verbatim>\<open>catch\<close> of \<^verbatim>\<open>handleSubmit\<close> (lines 536-539).\<close>

definition submitCatch :: "env \<Rightarrow> raised \<Rightarrow> state \<Rightarrow> state" where
  "submitCatch e err st =
     st\<lparr>error := Some (case apiErrorMessage err of
                         Some m \<Rightarrow> m
                       | None \<Rightarrow> translate e ''errors.sign.in.flow.failure''),
        trace := trace st @ [OnError err]\<rparr>"

text \<open>The outer \<^verbatim>\<open>catch\<close> of \<^verbatim>\<open>handleAuthenticatorSelection\<close> (lines 825-828).\<close>

definition selectionCatch :: "raised \<Rightarrow> state \<Rightarrow> state" where
  "selectionCatch err st =
     st\<lparr>error := Some (case apiErrorMessage err of
                         Some m \<Rightarrow> m
                       | None \<Rightarrow> ''Authenticator selection failed''),
        trace := trace st @ [OnError err]\<rparr>"

text \<open>The \<^verbatim>\<open>catch (passkeyError)\<close> of the passkey branch (lines 639-653).\<close>

definition passkeyCatch :: "env \<Rightarrow> raised \<Rightarrow> state \<Rightarrow> state" where
  "passkeyCatch e err st =
     st\<lparr>error := Some (case errorMessage e err of
                         None \<Rightarrow> translate e ''errors.sign.in.flow.passkeys.failure''
                       | Some m \<Rightarrow>
                           if includesStr m ''security'' then
                             m @ '' This may be due to browser security settings, an insecure connection, or device restrictions.''
                           else m),
        trace := trace st @ [ConsoleError (PasskeyAuthenticationError err)]\<rparr>"

text \<open>Lines 569-572: the challenge data read again inside the passkey branch, and the
  \<^verbatim>\<open>Error\<close> thrown when it is falsy.\<close>

definition passkeyChallenge :: "authenticator \<Rightarrow> raised + string" where
  "passkeyChallenge a =
     (case challengeDataOf a of
        None \<Rightarrow> Inl MissingChallengeData
      | Some c \<Rightarrow> if c = [] then Inl MissingChallengeData else Inr c)"

text \<open>\<^verbatim>\<open>handleSubmit\<close> (lines 460-543).\<close>

definition handleSubmit :: "env \<Rightarrow> (string \<times> string) list \<Rightarrow> state \<Rightarrow> state" where
  "handleSubmit e submittedValues st =
     (case currentFlow st of
        None \<Rightarrow> st
      | Some cf \<Rightarrow>
          (case currentAuthenticator st of
             None \<Rightarrow> st
           | Some ca \<Rightarrow>
               let st1 = touchAllFields st in
               if \<not> validateForm e (formFields (currentAuthenticator st)) (formValues st) then st1
               else
                 let st2 = st1\<lparr>isSignInInitializationRequestLoading := True,
                               error := None, messages := []\<rparr>
                 in (case awaitOnSubmit cf (mkPayload cf ca submittedValues) st2 of
                       (Pending, st3) \<Rightarrow> st3
                     | (Threw err, st3) \<Rightarrow> finish (submitCatch e err st3)
                     | (Returned response, st3) \<Rightarrow>
                         let st4 = st3\<lparr>trace := trace st3 @ [OnFlowChange response]\<rparr> in
                         if flowStatus response = SuccessCompleted then
                           finish (st4\<lparr>trace := trace st4 @ [OnSuccess (authData response)]\<rparr>)
                         else if flowStatus response = FailCompleted \<or>
                                 flowStatus response = FailIncomplete then
                           finish (st4\<lparr>error :=
                                         Some (translate e ''errors.sign.in.flow.completion.failure'')\<rparr>)
                         else
                           (case handleRedirectionIfNeeded e cf response st4 of
                              (True, st5) \<Rightarrow> finish st5
                            | (False, st5) \<Rightarrow>
                                (case (flowId response, nextStep response) of
                                   (Some _, Some s) \<Rightarrow>
                                     let st6 = st5\<lparr>currentFlow := Some response\<rparr>;
                                         st7 =
                                           (case authenticators s of
                                              [] \<Rightarrow> st6
                                            | nextAuthenticator # others \<Rightarrow>
                                                if stepType s = MultiOptionsPrompt \<and>
                                                   length (authenticators s) > 1 then
                                                  st6\<lparr>currentAuthenticator := None\<rparr>
                                                else
                                                  setupFormFields nextAuthenticator
                                                    (st6\<lparr>currentAuthenticator := Some nextAuthenticator\<rparr>))
                                     in finish (setStepMessages s st7)
                                 | _ \<Rightarrow> finish st5)))))"

text \<open>The block that interprets a next step inside \<^verbatim>\<open>handleAuthenticatorSelection\<close>. The
  source has it three times, word for word (lines 606-638, 715-747 and 786-818). It ends
  either with the state it has set (\<open>Settled\<close>) or, when the sole next authenticator is a
  passkey, with the recursive call and \<^verbatim>\<open>return\<close> (\<open>AutoTrigger\<close>, after \<^verbatim>\<open>setCurrentFlow\<close> only).\<close>

datatype next_step_result = Settled state | AutoTrigger authenticator state

definition interpretNextStep :: "env \<Rightarrow> flowResponse \<Rightarrow> state \<Rightarrow> next_step_result" where
  "interpretNextStep e response st =
     (case (flowId response, nextStep response) of
        (Some _, Some s) \<Rightarrow>
          let st1 = st\<lparr>currentFlow := Some response\<rparr> in
          (case authenticators s of
             [] \<Rightarrow> Settled (setStepMessages s st1)
           | nextAuthenticator # others \<Rightarrow>
               if stepType s = MultiOptionsPrompt \<and> length (authenticators s) > 1 then
                 Settled (setStepMessages s (st1\<lparr>currentAuthenticator := None\<rparr>))
               else if isPasskeyAuthenticator e nextAuthenticator then
                 AutoTrigger nextAuthenticator st1
               else
                 Settled (setStepMessages s
                   (setupFormFields nextAuthenticator
                      (st1\<lparr>currentAuthenticator := Some nextAuthenticator\<rparr>))))
      | _ \<Rightarrow> Settled st)"

text \<open>\<^verbatim>\<open>handleAuthenticatorSelection\<close> (lines 548-832). \<open>closureFlow\<close> is the \<^verbatim>\<open>currentFlow\<close>
  the function closed over when the component rendered: the recursive call of lines 622,
  731 and 802 is a call of the same closure, so it sees the same \<^verbatim>\<open>currentFlow\<close>, whatever
  \<^verbatim>\<open>setCurrentFlow\<close> has scheduled since. The recursive call is not awaited; the only thing
  the caller does after it is its \<^verbatim>\<open>finally\<close>, which sets the loading flag the callee's own
  \<^verbatim>\<open>finally\<close> sets too, so running the callee first gives the same final state. Every
  recursive call follows a consumed \<^verbatim>\<open>onSubmit\<close> answer, which is what ends the recursion
  here; the source has no bound of its own.\<close>

function handleAuthenticatorSelection ::
  "env \<Rightarrow> flowResponse option \<Rightarrow> authenticator \<Rightarrow> (string \<times> string) list option \<Rightarrow> state \<Rightarrow> state" where
  "handleAuthenticatorSelection e closureFlow a formData st =
     (case closureFlow of
        None \<Rightarrow> st
      | Some cf \<Rightarrow>
          let st0 = (if formData \<noteq> None then touchAllFields st else st);
              st1 = st0\<lparr>isSignInInitializationRequestLoading := True, error := None, messages := []\<rparr>
          in
          if isPasskeyAuthenticator e a then
            (case passkeyChallenge a of
               Inl err \<Rightarrow> finish (passkeyCatch e err st1)
             | Inr challenge \<Rightarrow>
                 let st2 = st1\<lparr>trace := trace st1 @ [WebAuthn challenge]\<rparr> in
                 (case webAuthnScript st2 of
                    [] \<Rightarrow> st2
                  | Rejects x # ceremonies \<Rightarrow>
                      finish (passkeyCatch e (Thrown x) (st2\<lparr>webAuthnScript := ceremonies\<rparr>))
                  | Resolves tokenResponse # ceremonies \<Rightarrow>
                      (case awaitOnSubmit cf (mkPayload cf a [(''tokenResponse'', tokenResponse)])
                              (st2\<lparr>webAuthnScript := ceremonies\<rparr>) of
                         (Pending, st3) \<Rightarrow> st3
                       | (Threw err, st3) \<Rightarrow> finish (passkeyCatch e err st3)
                       | (Returned response, st3) \<Rightarrow>
                           let st4 = st3\<lparr>trace := trace st3 @ [OnFlowChange response]\<rparr> in
                           if flowStatus response = SuccessCompleted then
                             finish (st4\<lparr>trace := trace st4 @ [OnSuccess (authData response)]\<rparr>)
                           else if flowStatus response = FailCompleted \<or>
                                   flowStatus response = FailIncomplete then
                             finish (st4\<lparr>error :=
                               Some (translate e ''errors.sign.in.flow.passkeys.completion.failure'')\<rparr>)
                           else
                             (case interpretNextStep e response st4 of
                                Settled st5 \<Rightarrow> finish st5
                              | AutoTrigger nextAuthenticator st5 \<Rightarrow>
                                  finish (handleAuthenticatorSelection e closureFlow
                                            nextAuthenticator None st5)))))
          else if promptTypeOf a = Some RedirectionPrompt then
            (case awaitOnSubmit cf (mkPayload cf a []) st1 of
               (Pending, st3) \<Rightarrow> st3
             | (Threw err, st3) \<Rightarrow> finish (selectionCatch err st3)
             | (Returned response, st3) \<Rightarrow>
                 let st4 = st3\<lparr>trace := trace st3 @ [OnFlowChange response]\<rparr> in
                 if flowStatus response = SuccessCompleted then
                   finish (st4\<lparr>trace := trace st4 @ [OnSuccess (authData response)]\<rparr>)
                 else finish (snd (handleRedirectionIfNeeded e cf response st4)))
          else if formData \<noteq> None then
            if \<not> validateForm e (formFields (currentAuthenticator st1)) (formValues st1) then finish st1
            else
              (case awaitOnSubmit cf (mkPayload cf a (case formData of None \<Rightarrow> [] | Some fd \<Rightarrow> fd)) st1 of
                 (Pending, st3) \<Rightarrow> st3
               | (Threw err, st3) \<Rightarrow> finish (selectionCatch err st3)
               | (Returned response, st3) \<Rightarrow>
                   let st4 = st3\<lparr>trace := trace st3 @ [OnFlowChange response]\<rparr> in
                   if flowStatus response = SuccessCompleted then
                     finish (st4\<lparr>trace := trace st4 @ [OnSuccess (authData response)]\<rparr>)
                   else if flowStatus response = FailCompleted \<or>
                           flowStatus response = FailIncomplete then
                     finish (st4\<lparr>error :=
                       Some ''Authentication failed. Please check your credentials and try again.''\<rparr>)
                   else
                     (case handleRedirectionIfNeeded e cf response st4 of
                        (True, st5) \<Rightarrow> finish st5
                      | (False, st5) \<Rightarrow>
                          (case interpretNextStep e response st5 of
                             Settled st6 \<Rightarrow> finish st6
                           | AutoTrigger nextAuthenticator st6 \<Rightarrow>
                               finish (handleAuthenticatorSelection e closureFlow
                                         nextAuthenticator None st6))))
          else if paramsOf a = [] then
            (case awaitOnSubmit cf (mkPayload cf a []) st1 of
               (Pending, st3) \<Rightarrow> st3
             | (Threw err, st3) \<Rightarrow> finish (selectionCatch err st3)
             | (Returned response, st3) \<Rightarrow>
                 let st4 = st3\<lparr>trace := trace st3 @ [OnFlowChange response]\<rparr> in
                 if flowStatus response = SuccessCompleted then
                   finish (st4\<lparr>trace := trace st4 @ [OnSuccess (authData response)]\<rparr>)
                 else if flowStatus response = FailCompleted \<or>
                         flowStatus response = FailIncomplete then
                   finish (st4\<lparr>error := Some ''Authentication failed. Please try again.''\<rparr>)
                 else
                   (case handleRedirectionIfNeeded e cf response st4 of
                      (True, st5) \<Rightarrow> finish st5
                    | (False, st5) \<Rightarrow>
                        (case interpretNextStep e response st5 of
                           Settled st6 \<Rightarrow> finish st6
                         | AutoTrigger nextAuthenticator st6 \<Rightarrow>
                             finish (handleAuthenticatorSelection e closureFlow
                                       nextAuthenticator None st6))))
          else
            finish (setupFormFields a (st1\<lparr>currentAuthenticator := Some a\<rparr>)))"
  by pat_completeness auto
termination
proof -
  have awaited: "length (submitScript st') < length (submitScript st)"
    if "(Returned r, st') = awaitOnSubmit cf p st" for r st' cf p st
    using that [symmetric]
    by (auto simp: awaitOnSubmit_def Let_def split: list.splits outcome.splits)
  have redirected: "submitScript st' = submitScript st"
    if "(b, st') = handleRedirectionIfNeeded e cf r st" for b st' e cf r st
    using that [symmetric]
    by (auto simp: handleRedirectionIfNeeded_def Let_def split: option.splits list.splits if_splits)
  have triggered: "submitScript st' = submitScript st"
    if "interpretNextStep e r st = AutoTrigger n st'" for e r st n st'
    using that
    by (auto simp: interpretNextStep_def Let_def split: option.splits list.splits if_splits)
  show ?thesis
    by (relation "measure (\<lambda>(e, cf, a, fd, st). length (submitScript st))")
       (auto simp: touchAllFields_def dest!: awaited redirected triggered split: if_splits)
qed

declare handleAuthenticatorSelection.simps [simp del]

text \<open>A call made from the rendered component: the closure holds the flow of that render.\<close>

definition selectAuthenticator ::
  "env \<Rightarrow> authenticator \<Rightarrow> (string \<times> string) list option \<Rightarrow> state \<Rightarrow> state" where
  "selectAuthenticator e a formData st = handleAuthenticatorSelection e (currentFlow st) a formData st"

definition isLoading :: "env \<Rightarrow> state \<Rightarrow> bool" where
  "isLoading e st = (externalIsLoading e \<or> isSignInInitializationRequestLoading st)"

text \<open>The \<^verbatim>\<open>catch\<close> of the initialize effect (lines 951-954).\<close>

definition initializeCatch :: "env \<Rightarrow> raised \<Rightarrow> state \<Rightarrow> state" where
  "initializeCatch e err st =
     st\<lparr>error := Some (case apiErrorMessage err of
                         Some m \<Rightarrow> m
                       | None \<Rightarrow> translate e ''errors.sign.in.initialization''),
        trace := trace st @ [OnError err]\<rparr>"

text \<open>The initialize effect (lines 897-959).\<close>

definition initialize :: "env \<Rightarrow> state \<Rightarrow> state" where
  "initialize e st =
     (if isLoading e st then st
      else if reRenderCheckRef st then st
      else
        let st1 = st\<lparr>reRenderCheckRef := True, isSignInInitializationRequestLoading := True,
                      error := None, trace := trace st @ [OnInitialize]\<rparr>
        in (case onInitializeResult e of
              None \<Rightarrow> st1
            | Some (Rejects x) \<Rightarrow> finish (initializeCatch e (Thrown x) st1)
            | Some (Resolves response) \<Rightarrow>
                let st2 = st1\<lparr>currentFlow := Some response, isInitialized := True,
                              trace := trace st1 @ [OnFlowChange response]\<rparr>
                in
                if flowStatus response = SuccessCompleted then
                  finish (st2\<lparr>trace := trace st2 @
                            [OnSuccess (Some (case authData response of None \<Rightarrow> [] | Some d \<Rightarrow> d))]\<rparr>)
                else
                  (case nextStep response of
                     None \<Rightarrow> finish st2
                   | Some s \<Rightarrow>
                       let st3 =
                             (case authenticators s of
                                [] \<Rightarrow> st2
                              | authenticator # others \<Rightarrow>
                                  if stepType s = MultiOptionsPrompt \<and>
                                     length (authenticators s) > 1 then
                                    st2\<lparr>currentAuthenticator := None\<rparr>
                                  else
                                    setupFormFields authenticator
                                      (st2\<lparr>currentAuthenticator := Some authenticator\<rparr>))
                       in finish (setStepMessages s st3))))"

subsection \<open>What the component renders\<close>

text \<open>The branches of the render function (lines 961-1226), without the markup: the view
  the function returns for a state. The passkey branch is the one that also registers the
  effect that calls \<^verbatim>\<open>handleAuthenticatorSelection\<close>; whether React commits what the function
  returns is the matter of \<open>rerender\<close> below.\<close>

datatype view =
    LoadingView
  | ChooseOneView "authenticator list" "authenticator list"
  | NoAuthenticatorView
  | PasskeyView authenticator
  | FormView authenticator "formField list"

definition hasMultipleOptions :: "state \<Rightarrow> bool" where
  "hasMultipleOptions st =
     (case currentFlow st of
        None \<Rightarrow> False
      | Some cf \<Rightarrow>
          (case nextStep cf of
             None \<Rightarrow> False
           | Some s \<Rightarrow> stepType s = MultiOptionsPrompt \<and> length (authenticators s) > 1))"

definition getAvailableAuthenticators :: "state \<Rightarrow> authenticator list" where
  "getAvailableAuthenticators st =
     (case currentFlow st of
        None \<Rightarrow> []
      | Some cf \<Rightarrow> (case nextStep cf of None \<Rightarrow> [] | Some s \<Rightarrow> authenticators s))"

text \<open>The partition rule of lines 979-984.\<close>

definition isDirectInput :: "authenticator \<Rightarrow> bool" where
  "isDirectInput a =
     (promptTypeOf a = Some UserPrompt \<or> (idp a = ''LOCAL'' \<and> paramsOf a \<noteq> []))"

definition userPromptAuthenticators :: "authenticator list \<Rightarrow> authenticator list" where
  "userPromptAuthenticators available = filter isDirectInput available"

definition optionAuthenticators :: "authenticator list \<Rightarrow> authenticator list" where
  "optionAuthenticators available =
     filter (\<lambda>a. authenticatorId a \<notin> set HIDDEN_AUTHENTICATORS)
       (filter (\<lambda>a. a \<notin> set (userPromptAuthenticators available)) available)"

definition render :: "env \<Rightarrow> state \<Rightarrow> view" where
  "render e st =
     (if \<not> isInitialized st \<and> isLoading e st then LoadingView
      else if hasMultipleOptions st \<and> currentAuthenticator st = None then
        ChooseOneView (userPromptAuthenticators (getAvailableAuthenticators st))
                      (optionAuthenticators (getAvailableAuthenticators st))
      else
        (case currentAuthenticator st of
           None \<Rightarrow> NoAuthenticatorView
         | Some a \<Rightarrow>
             if isPasskeyAuthenticator e a \<and> \<not> isLoading e st then PasskeyView a
             else FormView a (formFields (currentAuthenticator st))))"

text \<open>The passkey branch is the only one that calls a hook behind a \<^verbatim>\<open>return\<close>: the
  \<^verbatim>\<open>useEffect\<close> of lines 1124-1126 is reached only when the three returns of lines 961,
  976 and 1106 are not taken and the test of line 1122 holds. Every other hook of the
  component is called above line 961, on every render. \<open>conditionalHooks\<close> counts the hooks
  a render calls below line 961.\<close>

definition conditionalHooks :: "env \<Rightarrow> state \<Rightarrow> nat" where
  "conditionalHooks e st = (case render e st of PasskeyView a \<Rightarrow> 1 | _ \<Rightarrow> 0)"

text \<open>React keeps the hooks of a component in a list that is built by the first render, and
  requires every later render to call the same hooks in the same order: a render that calls
  more hooks than the one before throws "Rendered more hooks than during the previous
  render", one that calls fewer throws "Rendered fewer hooks than expected". The component
  has no error boundary of its own, so such a render commits nothing and runs no effect.
  \<open>rerender e previous st\<close> is the render of state \<open>st\<close> that follows the committed render
  of state \<open>previous\<close>.\<close>

datatype render_result = Committed view | HooksChanged

definition rerender :: "env \<Rightarrow> state \<Rightarrow> state \<Rightarrow> render_result" where
  "rerender e previous st =
     (if conditionalHooks e st = conditionalHooks e previous then Committed (render e st)
      else HooksChanged)"

text \<open>The effect of lines 1124-1126, the only caller of \<^verbatim>\<open>handleAuthenticatorSelection\<close> for
  a passkey that \<^verbatim>\<open>initialize\<close> or \<^verbatim>\<open>handleSubmit\<close> has made the current authenticator. It
  runs after a committed render of the passkey view, when its dependency
  \<^verbatim>\<open>currentAuthenticator\<close> differs from the one of the render before.\<close>

definition passkeyEffect :: "env \<Rightarrow> state \<Rightarrow> state \<Rightarrow> state" where
  "passkeyEffect e previous st =
     (case rerender e previous st of
        Committed (PasskeyView a) \<Rightarrow>
          if currentAuthenticator previous = currentAuthenticator st then st
          else selectAuthenticator e a None st
      | _ \<Rightarrow> st)"

text \<open>A sequence of states whose renders all commit, each following the one before.\<close>

fun commits :: "env \<Rightarrow> state \<Rightarrow> state list \<Rightarrow> bool" where
  "commits e previous [] = True"
| "commits e previous (st # later) = (rerender e previous st \<noteq> HooksChanged \<and> commits e st later)"

subsection \<open>Vocabulary of the properties\<close>

text \<open>The view in which the user has to choose one authenticator.\<close>

definition isChooseOne :: "view \<Rightarrow> bool" where
  "isChooseOne v = (case v of ChooseOneView ups opts \<Rightarrow> True | _ \<Rightarrow> False)"

text \<open>What "auto-advanced to \<open>a\<close>" means below: \<open>a\<close> is the current authenticator, the
  form has one field per declared parameter of \<open>a\<close>, in order, and every value is empty.\<close>

definition advancedTo :: "authenticator \<Rightarrow> state \<Rightarrow> bool" where
  "advancedTo a st =
     (currentAuthenticator st = Some a \<and>
      map fieldName (formFields (currentAuthenticator st)) = map param (paramsOf a) \<and>
      (\<forall>k. valueOf (formValues st) k = []))"

text \<open>The test \<^verbatim>\<open>handleRedirectionIfNeeded\<close> makes on a step before it opens a popup and
  returns true (lines 296-318), as a predicate.\<close>

definition redirectHandOff :: "env \<Rightarrow> step \<Rightarrow> bool" where
  "redirectHandOff e s =
     (stepType s = AuthenticatorPrompt \<and>
      (case authenticators s of
         [ra] \<Rightarrow> promptTypeOf ra = Some RedirectionPrompt \<and> truthy (redirectUrlOf ra) \<and>
                 \<not> popupBlocked e
       | _ \<Rightarrow> False))"

text \<open>Vocabulary for runs of passkey steps. \<open>passkeyStep e r a\<close>: the answer \<open>r\<close> is in
  progress and its step offers \<open>a\<close>, a passkey, as its sole authenticator. \<open>passkeyRun e a
  chain\<close>: starting from the passkey \<open>a\<close>, every answer of \<open>chain\<close> is such a step for the
  authenticator paired with it. \<open>autoTriggers\<close> is the condition under which lines 617-623
  recurse; \<open>endsRun\<close> says that what follows the run does not start another ceremony: no
  answer (the last submission is pending), a rejection, a terminal status, or a step that
  does not auto-trigger. \<open>runEvents\<close> lists the calls a run makes, in order.\<close>

definition passkeyStep :: "env \<Rightarrow> flowResponse \<Rightarrow> authenticator \<Rightarrow> bool" where
  "passkeyStep e r a =
     (flowStatus r = InProgress \<and> flowId r \<noteq> None \<and>
      (case nextStep r of None \<Rightarrow> False | Some s \<Rightarrow> authenticators s = [a]) \<and>
      isPasskeyAuthenticator e a)"

fun passkeyRun :: "env \<Rightarrow> authenticator \<Rightarrow> (flowResponse \<times> authenticator) list \<Rightarrow> bool" where
  "passkeyRun e a [] = isPasskeyAuthenticator e a"
| "passkeyRun e a ((r, a') # following) =
     (isPasskeyAuthenticator e a \<and> passkeyStep e r a' \<and> passkeyRun e a' following)"

definition autoTriggers :: "env \<Rightarrow> flowResponse \<Rightarrow> bool" where
  "autoTriggers e r =
     (case (flowId r, nextStep r) of
        (Some _, Some s) \<Rightarrow>
          (case authenticators s of
             [] \<Rightarrow> False
           | nextAuthenticator # others \<Rightarrow>
               \<not> (stepType s = MultiOptionsPrompt \<and> length (authenticators s) > 1) \<and>
               isPasskeyAuthenticator e nextAuthenticator)
      | _ \<Rightarrow> False)"

fun endsRun :: "env \<Rightarrow> flowResponse outcome list \<Rightarrow> bool" where
  "endsRun e [] = True"
| "endsRun e (Rejects x # later) = True"
| "endsRun e (Resolves r # later) = (flowStatus r \<noteq> InProgress \<or> \<not> autoTriggers e r)"

fun isWebAuthn :: "effect \<Rightarrow> bool" where
  "isWebAuthn (WebAuthn c) = True"
| "isWebAuthn ev = False"

fun isOnSubmit :: "effect \<Rightarrow> bool" where
  "isOnSubmit (OnSubmit p rq) = True"
| "isOnSubmit ev = False"

fun runEvents ::
  "flowResponse \<Rightarrow> link \<Rightarrow> authenticator \<Rightarrow> string list \<Rightarrow>
     (flowResponse \<times> authenticator) list \<Rightarrow> effect list" where
  "runEvents cf l a [] chain = []"
| "runEvents cf l a (tok # toks) [] =
     [WebAuthn (orDefault (challengeDataOf a) []),
      OnSubmit (mkPayload cf a [(''tokenResponse'', tok)]) \<lparr>reqMethod = linkMethod l, reqUrl = href l\<rparr>]"
| "runEvents cf l a (tok # toks) ((r, a') # following) =
     [WebAuthn (orDefault (challengeDataOf a) []),
      OnSubmit (mkPayload cf a [(''tokenResponse'', tok)]) \<lparr>reqMethod = linkMethod l, reqUrl = href l\<rparr>,
      OnFlowChange r] @ runEvents cf l a' toks following"

text \<open>An attempt is released when neither its message listener nor its interval is
  registered.\<close>

definition released :: "attempt \<Rightarrow> bool" where
  "released a = (\<not> listenerAttached a \<and> \<not> timerActive a)"

text \<open>How many times a trace removes the message listener, that is, runs \<^verbatim>\<open>cleanup\<close>.\<close>

abbreviation releases :: "effect list \<Rightarrow> nat" where
  "releases t \<equiv> length (filter (\<lambda>ev. ev = RemoveMessageListener) t)"

text \<open>The report that line 640 would print for the \<^verbatim>\<open>Error\<close> of line 571.\<close>

abbreviation missingChallengeReport :: effect where
  "missingChallengeReport \<equiv> ConsoleError (PasskeyAuthenticationError MissingChallengeData)"

subsection \<open>Example values\<close>

text \<open>Scenario B: a flow whose step offers one redirect authenticator, a host at
  \<^verbatim>\<open>https://app\<close>, and a popup that ends at \<^verbatim>\<open>https://app/cb?code=abc&state=xyz\<close>.\<close>

definition exampleLink :: link where
  "exampleLink = \<lparr>linkMethod = ''POST'', href = ''https://idp/oauth2/authn''\<rparr>"

definition googleAuthenticator :: authenticator where
  "googleAuthenticator =
     \<lparr>authenticatorId = ''google'', idp = ''Google'',
      metadata = Some \<lparr>promptType = Some RedirectionPrompt, params = None,
                       additionalData = Some \<lparr>challengeData = None,
                                              redirectUrl = Some ''https://idp/auth''\<rparr>\<rparr>,
      requiredParams = []\<rparr>"

definition redirectFlow :: flowResponse where
  "redirectFlow =
     \<lparr>flowId = Some ''flow-1'', flowStatus = InProgress,
      nextStep = Some \<lparr>stepType = AuthenticatorPrompt, authenticators = [googleAuthenticator],
                       stepMessages = None\<rparr>,
      links = [exampleLink], authData = None\<rparr>"

definition successResponse :: flowResponse where
  "successResponse =
     \<lparr>flowId = None, flowStatus = SuccessCompleted, nextStep = None, links = [],
      authData = Some [(''code'', ''authz'')]\<rparr>"

definition exampleEnv :: env where
  "exampleEnv =
     \<lparr>afterSignInUrl = Some ''https://app/dashboard'', externalIsLoading = False,
      translate = (\<lambda>k. k), passkeyId = ''RklET0F1dGhlbnRpY2F0b3I6TE9DQUw'',
      windowOrigin = ''https://app'',
      urlOrigin = (\<lambda>u. if u = ''https://app/dashboard'' then Some ''https://app'' else None),
      searchParam = (\<lambda>u k. if u = ''https://app/cb?code=abc&state=xyz'' then
                               (if k = ''code'' then Some ''abc''
                                else if k = ''state'' then Some ''xyz'' else None)
                             else None),
      popupBlocked = False, onInitializeResult = None,
      typeErrorMessage = ''Cannot read properties of undefined''\<rparr>"

definition idleState :: state where
  "idleState =
     \<lparr>isSignInInitializationRequestLoading = False, isInitialized = True,
      currentFlow = None, currentAuthenticator = None, error = None, messages = [],
      reRenderCheckRef = True, formValues = [], formTouched = False, attempts = [],
      trace = [], submitScript = [], webAuthnScript = []\<rparr>"

definition callbackMessage :: messageEvent where
  "callbackMessage =
     \<lparr>evSource = FromPopup, evOrigin = ''https://app'',
      evData = Some \<lparr>dataCode = Some ''abc'', dataState = Some ''xyz''\<rparr>\<rparr>"

definition codePayload :: payload where
  "codePayload = mkPayload redirectFlow googleAuthenticator [(''code'', ''abc''), (''state'', ''xyz'')]"

definition exampleRequest :: request where
  "exampleRequest = \<lparr>reqMethod = ''POST'', reqUrl = ''https://idp/oauth2/authn''\<rparr>"

definition foreignMessage :: messageEvent where
  "foreignMessage =
     \<lparr>evSource = FromPopup, evOrigin = ''https://evil.example'',
      evData = Some \<lparr>dataCode = Some ''abc'', dataState = Some ''xyz''\<rparr>\<rparr>"

text \<open>An environment in which the popup can land on an address that carries an
  \<^verbatim>\<open>error\<close> parameter.\<close>

definition denyingEnv :: env where
  "denyingEnv =
     exampleEnv\<lparr>searchParam :=
       (\<lambda>u k. if u = ''https://app/cb?error=access_denied''
              then (if k = ''error'' then Some ''access_denied'' else None)
              else searchParam exampleEnv u k)\<rparr>"

definition passkeyAuthenticator :: authenticator where
  "passkeyAuthenticator =
     \<lparr>authenticatorId = ''RklET0F1dGhlbnRpY2F0b3I6TE9DQUw'', idp = ''LOCAL'',
      metadata = Some \<lparr>promptType = Some InternalPrompt, params = None,
                       additionalData = Some \<lparr>challengeData = Some ''eyJjaGFsbGVuZ2UiOiJ4In0'',
                                              redirectUrl = None\<rparr>\<rparr>,
      requiredParams = []\<rparr>"

definition basicAuthenticator :: authenticator where
  "basicAuthenticator =
     \<lparr>authenticatorId = ''basic'', idp = ''LOCAL'',
      metadata = Some \<lparr>promptType = Some UserPrompt,
                       params = Some [\<lparr>param = ''username''\<rparr>],
                       additionalData = None\<rparr>,
      requiredParams = [''username'']\<rparr>"

definition basicFlow :: flowResponse where
  "basicFlow =
     \<lparr>flowId = Some ''flow-1'', flowStatus = InProgress,
      nextStep = Some \<lparr>stepType = AuthenticatorPrompt, authenticators = [basicAuthenticator],
                       stepMessages = None\<rparr>,
      links = [exampleLink], authData = None\<rparr>"

definition ssoAuthenticator :: authenticator where
  "ssoAuthenticator =
     \<lparr>authenticatorId = ''T3JnYW5pemF0aW9uQXV0aGVudGljYXRvcjpTU08'', idp = ''SSO'',
      metadata = Some \<lparr>promptType = Some RedirectionPrompt, params = None,
                       additionalData = None\<rparr>,
      requiredParams = []\<rparr>"

definition multiOptionsFlow :: flowResponse where
  "multiOptionsFlow =
     \<lparr>flowId = Some ''flow-1'', flowStatus = InProgress,
      nextStep = Some \<lparr>stepType = MultiOptionsPrompt,
                       authenticators = [basicAuthenticator, ssoAuthenticator],
                       stepMessages = None\<rparr>,
      links = [exampleLink], authData = None\<rparr>"

definition failResponse :: flowResponse where
  "failResponse =
     \<lparr>flowId = Some ''flow-1'', flowStatus = FailIncomplete, nextStep = None,
      links = [exampleLink], authData = None\<rparr>"

definition formState :: state where
  "formState =
     idleState\<lparr>currentFlow := Some basicFlow, currentAuthenticator := Some basicAuthenticator,
               formValues := [(''username'', ''alice'')]\<rparr>"

definition choiceState :: state where
  "choiceState = idleState\<lparr>currentFlow := Some multiOptionsFlow\<rparr>"



definition freshState :: state where
  "freshState = idleState\<lparr>reRenderCheckRef := False, isInitialized := False\<rparr>"

definition initEnv :: "flowResponse \<Rightarrow> env" where
  "initEnv r = exampleEnv\<lparr>onInitializeResult := Some (Resolves r)\<rparr>"

definition secondPasskey :: authenticator where
  "secondPasskey =
     \<lparr>authenticatorId = ''RklET0F1dGhlbnRpY2F0b3I6TE9DQUw'', idp = ''LOCAL'',
      metadata = Some \<lparr>promptType = Some InternalPrompt, params = None,
                       additionalData = Some \<lparr>challengeData = Some ''eyJjaGFsbGVuZ2UiOiJ5In0'',
                                              redirectUrl = None\<rparr>\<rparr>,
      requiredParams = []\<rparr>"

definition passkeyFlow :: flowResponse where
  "passkeyFlow =
     \<lparr>flowId = Some ''flow-1'', flowStatus = InProgress,
      nextStep = Some \<lparr>stepType = AuthenticatorPrompt, authenticators = [passkeyAuthenticator],
                       stepMessages = None\<rparr>,
      links = [exampleLink], authData = None\<rparr>"

definition secondPasskeyFlow :: flowResponse where
  "secondPasskeyFlow =
     \<lparr>flowId = Some ''flow-1'', flowStatus = InProgress,
      nextStep = Some \<lparr>stepType = AuthenticatorPrompt, authenticators = [secondPasskey],
                       stepMessages = None\<rparr>,
      links = [exampleLink], authData = None\<rparr>"

definition passkeyChoiceFlow :: flowResponse where
  "passkeyChoiceFlow =
     \<lparr>flowId = Some ''flow-1'', flowStatus = InProgress,
      nextStep = Some \<lparr>stepType = MultiOptionsPrompt,
                       authenticators = [basicAuthenticator, passkeyAuthenticator],
                       stepMessages = None\<rparr>,
      links = [exampleLink], authData = None\<rparr>"

definition passkeyChoiceState :: state where
  "passkeyChoiceState =
     idleState\<lparr>currentFlow := Some passkeyChoiceFlow,
               webAuthnScript := [Resolves ''assertion-1'', Resolves ''assertion-2'']\<rparr>"

section \<open>Properties\<close>

subsection \<open>Facts about the building blocks\<close>

lemma passkeyChallenge_classified:
  "isPasskeyAuthenticator e a \<Longrightarrow> \<exists>c. c \<noteq> [] \<and> challengeDataOf a = Some c \<and> passkeyChallenge a = Inr c"
  by (auto simp: isPasskeyAuthenticator_def passkeyChallenge_def truthy_def split: option.splits)

lemma trace_finish [simp]: "trace (finish st) = trace st"
  by (simp add: finish_def)

lemma trace_setStepMessages [simp]: "trace (setStepMessages s st) = trace st"
  by (simp add: setStepMessages_def split: option.split)

lemma trace_setupFormFields [simp]: "trace (setupFormFields a st) = trace st"
  by (simp add: setupFormFields_def)

lemma trace_touchAllFields [simp]: "trace (touchAllFields st) = trace st"
  by (simp add: touchAllFields_def)

lemma trace_passkeyCatch [simp]:
  "trace (passkeyCatch e err st) = trace st @ [ConsoleError (PasskeyAuthenticationError err)]"
  by (simp add: passkeyCatch_def)

lemma trace_selectionCatch [simp]: "trace (selectionCatch err st) = trace st @ [OnError err]"
  by (simp add: selectionCatch_def)

lemma awaitOnSubmit_cases:
  assumes "awaitOnSubmit cf p st = (res, st')"
  shows "(res = Threw TypeError \<and> st' = st) \<or>
         (\<exists>rq. trace st' = trace st @ [OnSubmit p rq] \<and>
            ((res = Pending \<and> submitScript st = []) \<or>
             (\<exists>r. res = Returned r \<and> submitScript st = Resolves r # submitScript st') \<or>
             (\<exists>x. res = Threw (Thrown x) \<and> submitScript st = Rejects x # submitScript st')))"
  using assms
  by (auto simp: awaitOnSubmit_def Let_def split: list.splits outcome.splits)

lemma set_trace_awaitOnSubmit:
  "awaitOnSubmit cf p st = (res, st') \<Longrightarrow> set (trace st') \<subseteq> set (trace st) \<union> range (OnSubmit p)"
  by (auto dest!: awaitOnSubmit_cases)

lemma threw_awaitOnSubmit:
  "awaitOnSubmit cf p st = (Threw err, st') \<Longrightarrow> err \<noteq> MissingChallengeData"
  by (auto dest!: awaitOnSubmit_cases)

lemma script_awaitOnSubmit:
  "awaitOnSubmit cf p st = (Returned r, st') \<Longrightarrow> length (submitScript st') < length (submitScript st)"
  by (auto dest!: awaitOnSubmit_cases)

lemma handleRedirectionIfNeeded_trace:
  "handleRedirectionIfNeeded e cf r st = (b, st') \<Longrightarrow>
     submitScript st' = submitScript st \<and>
     set (trace st') \<subseteq> set (trace st) \<union> range WindowOpen \<union>
        {ConsoleError FailedToOpenPopup, AddMessageListener, SetInterval}"
  by (auto simp: handleRedirectionIfNeeded_def Let_def split: option.splits list.splits if_splits)


lemma within_await:
  "awaitOnSubmit cf p st = (res, st') \<Longrightarrow> - {missingChallengeReport} \<subseteq> B \<Longrightarrow> set (trace st) \<subseteq> B \<Longrightarrow> set (trace st') \<subseteq> B"
  by (auto dest!: set_trace_awaitOnSubmit)

lemma within_redirect:
  "handleRedirectionIfNeeded e cf r st = (b, st') \<Longrightarrow> - {missingChallengeReport} \<subseteq> B \<Longrightarrow> set (trace st) \<subseteq> B \<Longrightarrow> set (trace st') \<subseteq> B"
  by (auto dest!: handleRedirectionIfNeeded_trace)

lemma within_redirect_snd:
  "- {missingChallengeReport} \<subseteq> B \<Longrightarrow> set (trace st) \<subseteq> B \<Longrightarrow> set (trace (snd (handleRedirectionIfNeeded e cf r st))) \<subseteq> B"
  using within_redirect [of e cf r st] by (cases "handleRedirectionIfNeeded e cf r st") auto

lemma script_redirect: "handleRedirectionIfNeeded e cf r st = (b, st') \<Longrightarrow> submitScript st' = submitScript st"
  by (auto dest!: handleRedirectionIfNeeded_trace)

lemma interpretNextStep_Settled:
  "interpretNextStep e r st = Settled st' \<Longrightarrow> trace st' = trace st"
  by (auto simp: interpretNextStep_def Let_def split: option.splits list.splits if_splits)

lemma interpretNextStep_AutoTrigger:
  "interpretNextStep e r st = AutoTrigger n st' \<Longrightarrow>
     st' = st\<lparr>currentFlow := Some r\<rparr> \<and> isPasskeyAuthenticator e n"
  by (auto simp: interpretNextStep_def Let_def split: option.splits list.splits if_splits)

lemma await_facts:
  "awaitOnSubmit cf p st = (res, st') \<Longrightarrow>
     (- {missingChallengeReport} \<subseteq> B \<longrightarrow> set (trace st) \<subseteq> B \<longrightarrow> set (trace st') \<subseteq> B) \<and>
     (\<forall>err. res = Threw err \<longrightarrow> err \<noteq> MissingChallengeData) \<and>
     (\<forall>r. res = Returned r \<longrightarrow> length (submitScript st') < length (submitScript st))"
  by (auto dest!: awaitOnSubmit_cases)

lemma redirect_facts:
  "handleRedirectionIfNeeded e cf r st = (b, st') \<Longrightarrow>
     submitScript st' = submitScript st \<and>
     (- {missingChallengeReport} \<subseteq> B \<longrightarrow> set (trace st) \<subseteq> B \<longrightarrow> set (trace st') \<subseteq> B)"
  by (auto dest!: handleRedirectionIfNeeded_trace)

lemma handleAuthenticatorSelection_trace_within:
  assumes B: "- {missingChallengeReport} \<subseteq> B"
  shows "set (trace st) \<subseteq> B \<Longrightarrow> set (trace (handleAuthenticatorSelection e cf a fd st)) \<subseteq> B"
proof (induction "length (submitScript st)" arbitrary: st a fd rule: less_induct)
  case less
  note IH = less.hyps
  note clean = less.prems
  have other: "x \<in> B" if "x \<noteq> missingChallengeReport" for x
    using B that by auto
  show ?case
  proof (cases cf)
    case None
    then show ?thesis using clean by (subst handleAuthenticatorSelection.simps) simp
  next
    case (Some flow)
    have tail: "set (trace (case interpretNextStep e r st' of
                   Settled st5 \<Rightarrow> finish st5
                 | AutoTrigger n st5 \<Rightarrow> finish (handleAuthenticatorSelection e (Some flow) n None st5))) \<subseteq> B"
      if "set (trace st') \<subseteq> B" "length (submitScript st') < length (submitScript st)"
      for r st'
    proof (cases "interpretNextStep e r st'")
      case (Settled st5)
      then show ?thesis using that interpretNextStep_Settled [OF Settled] by simp
    next
      case (AutoTrigger n st5)
      from interpretNextStep_AutoTrigger [OF AutoTrigger] that
      have "set (trace st5) \<subseteq> B" "length (submitScript st5) < length (submitScript st)"
        by simp_all
      from IH [OF this(2) this(1)] AutoTrigger Some show ?thesis by simp
    qed
    have tail_mem: "x \<in> B"
      if "x \<in> set (trace (case interpretNextStep e r st' of
                   Settled st5 \<Rightarrow> finish st5
                 | AutoTrigger n st5 \<Rightarrow> finish (handleAuthenticatorSelection e (Some flow) n None st5)))"
         "set (trace st') \<subseteq> B" "length (submitScript st') < length (submitScript st)"
      for x r st'
      using tail [OF that(2,3), of r] that(1) by blast
    have fd_cases: "fd = None \<or> (\<exists>y. fd = Some y)"
      by (cases fd) auto
    consider (passkey) "isPasskeyAuthenticator e a"
      | (redirect) "\<not> isPasskeyAuthenticator e a" "promptTypeOf a = Some RedirectionPrompt"
      | (form) y where "\<not> isPasskeyAuthenticator e a" "promptTypeOf a \<noteq> Some RedirectionPrompt" "fd = Some y"
      | (direct) "\<not> isPasskeyAuthenticator e a" "promptTypeOf a \<noteq> Some RedirectionPrompt" "fd = None"
      using fd_cases by blast
    then show ?thesis
    proof cases
      case passkey
      from passkeyChallenge_classified [OF passkey] obtain c where c: "passkeyChallenge a = Inr c"
        by blast
      from fd_cases show ?thesis
      proof (elim disjE exE)
        assume fd: "fd = None"
        show ?thesis
          apply (subst handleAuthenticatorSelection.simps)
          using clean passkey c Some fd
          apply (simp add: Let_def other split: list.split outcome.split prod.split submit_result.split)
          apply (intro conjI impI allI tail within_redirect_snd [OF B])
          apply (insert B, auto dest!: await_facts [where B = B] redirect_facts [where B = B] simp: other)
        apply ((erule tail_mem; simp add: other)+)?
          done
      next
        fix y assume fd: "fd = Some y"
        show ?thesis
          apply (subst handleAuthenticatorSelection.simps)
          using clean passkey c Some fd
          apply (simp add: Let_def other touchAllFields_def split: list.split outcome.split prod.split submit_result.split)
          apply (intro conjI impI allI tail within_redirect_snd [OF B])
          apply (insert B, auto dest!: await_facts [where B = B] redirect_facts [where B = B] simp: other)
        apply ((erule tail_mem; simp add: other)+)?
          done
      qed
    next
      case redirect
      from fd_cases show ?thesis
      proof (elim disjE exE)
        assume fd: "fd = None"
        show ?thesis
          apply (subst handleAuthenticatorSelection.simps)
          using clean redirect Some fd
          apply (simp add: Let_def other split: prod.split submit_result.split)
          apply (intro conjI impI allI tail within_redirect_snd [OF B])
          apply (insert B, auto dest!: await_facts [where B = B] redirect_facts [where B = B] simp: other)
        apply ((erule tail_mem; simp add: other)+)?
          done
      next
        fix y assume fd: "fd = Some y"
        show ?thesis
          apply (subst handleAuthenticatorSelection.simps)
          using clean redirect Some fd
          apply (simp add: Let_def other touchAllFields_def split: prod.split submit_result.split)
          apply (intro conjI impI allI tail within_redirect_snd [OF B])
          apply (insert B, auto dest!: await_facts [where B = B] redirect_facts [where B = B] simp: other)
        apply ((erule tail_mem; simp add: other)+)?
          done
      qed
    next
      case form
      show ?thesis
        apply (subst handleAuthenticatorSelection.simps)
        using clean form Some
        apply (simp add: Let_def other touchAllFields_def split: prod.split submit_result.split bool.split)
        apply (intro conjI impI allI tail within_redirect_snd [OF B])
        apply (insert B, auto dest!: await_facts [where B = B] redirect_facts [where B = B] simp: other)
        apply ((erule tail_mem; simp add: other)+)?
        done
    next
      case direct
      show ?thesis
        apply (subst handleAuthenticatorSelection.simps)
        using clean direct Some
        apply (simp add: Let_def other split: prod.split submit_result.split bool.split)
        apply (intro conjI impI allI tail within_redirect_snd [OF B])
        apply (insert B, auto dest!: await_facts [where B = B] redirect_facts [where B = B] simp: other)
        apply ((erule tail_mem; simp add: other)+)?
        done
    qed
  qed
qed


lemma redirect_extends:
  "handleRedirectionIfNeeded e cf r st = (b, st') \<Longrightarrow> \<exists>t. trace st' = trace st @ t"
  by (auto simp: handleRedirectionIfNeeded_def Let_def split: option.splits list.splits if_splits)

lemma handleSubmit_calls_transport:
  assumes "currentFlow st = Some cf" and "currentAuthenticator st = Some ca"
    and "links cf = l # ls"
    and "validateForm e (formFields (Some ca)) (formValues st)"
  shows "\<exists>tail. trace (handleSubmit e v st) =
           trace st @ OnSubmit (mkPayload cf ca v) \<lparr>reqMethod = linkMethod l, reqUrl = href l\<rparr> # tail"
proof (cases "submitScript st")
  case Nil
  with assms show ?thesis
    by (simp add: handleSubmit_def awaitOnSubmit_def Let_def touchAllFields_def)
next
  case (Cons out rest)
  show ?thesis
  proof (cases out)
    case (Rejects x)
    with Cons assms show ?thesis
      by (simp add: handleSubmit_def awaitOnSubmit_def Let_def touchAllFields_def submitCatch_def)
  next
    case (Resolves r)
    with Cons assms show ?thesis
      by (auto simp: handleSubmit_def awaitOnSubmit_def Let_def touchAllFields_def
            split: prod.split option.split list.split bool.split dest!: redirect_extends)
  qed
qed

lemma redirect_frame:
  "handleRedirectionIfNeeded e cf r st = (b, st') \<Longrightarrow>
     currentAuthenticator st' = currentAuthenticator st \<and> currentFlow st' = currentFlow st \<and>
     formValues st' = formValues st \<and> isInitialized st' = isInitialized st \<and>
     isSignInInitializationRequestLoading st' = isSignInInitializationRequestLoading st \<and>
     error st' = error st \<and> messages st' = messages st \<and>
     b = (case nextStep r of None \<Rightarrow> False | Some s \<Rightarrow> redirectHandOff e s)"
  by (auto simp: handleRedirectionIfNeeded_def redirectHandOff_def Let_def
        split: option.splits list.splits if_splits)

lemma valueOf_setValue:
  "valueOf (setValue k v vs) k' = (if k' = k then v else valueOf vs k')"
  by (induction vs) (auto simp: valueOf_def)

lemma valueOf_reset:
  "valueOf (foldl (\<lambda>vs p. setValue (param p) [] vs) vs0 ps) k =
     (if k \<in> param ` set ps then [] else valueOf vs0 k)"
  by (induction ps arbitrary: vs0) (auto simp: valueOf_setValue)

lemma advancedTo_setupFormFields:
  "currentAuthenticator st = Some a \<Longrightarrow> advancedTo a (setupFormFields a st)"
  by (simp add: advancedTo_def setupFormFields_def formFields_def valueOf_reset comp_def)
     (simp add: valueOf_def)

lemma advancedTo_frame:
  "advancedTo a (finish st) = advancedTo a st"
  "advancedTo a (setStepMessages s st) = advancedTo a st"
  by (simp_all add: advancedTo_def finish_def setStepMessages_def split: option.split)

lemma render_selected:
  "currentAuthenticator st \<noteq> None \<Longrightarrow> \<not> isChooseOne (render e st)"
  by (auto simp: render_def isChooseOne_def split: option.splits)

lemma render_single:
  "currentFlow st = Some r \<Longrightarrow> nextStep r = Some s \<Longrightarrow> length (authenticators s) \<le> 1 \<Longrightarrow>
     \<not> isChooseOne (render e st)"
  by (auto simp: render_def isChooseOne_def hasMultipleOptions_def split: option.splits)

lemma frame_finish [simp]:
  "currentAuthenticator (finish st) = currentAuthenticator st"
  "currentFlow (finish st) = currentFlow st"
  "isInitialized (finish st) = isInitialized st"
  "isSignInInitializationRequestLoading (finish st) = False"
  by (simp_all add: finish_def)

lemma frame_setStepMessages [simp]:
  "currentAuthenticator (setStepMessages s st) = currentAuthenticator st"
  "currentFlow (setStepMessages s st) = currentFlow st"
  "isInitialized (setStepMessages s st) = isInitialized st"
  "isSignInInitializationRequestLoading (setStepMessages s st) = isSignInInitializationRequestLoading st"
  by (simp_all add: setStepMessages_def split: option.split)

lemma frame_setupFormFields [simp]:
  "currentAuthenticator (setupFormFields a st) = currentAuthenticator st"
  "currentFlow (setupFormFields a st) = currentFlow st"
  "isInitialized (setupFormFields a st) = isInitialized st"
  "isSignInInitializationRequestLoading (setupFormFields a st) = isSignInInitializationRequestLoading st"
  by (simp_all add: setupFormFields_def)

lemma handleSubmit_hand_off:
  assumes "currentFlow st = Some cf" and "currentAuthenticator st = Some ca"
    and "links cf = l # ls"
    and "validateForm e (formFields (Some ca)) (formValues st)"
    and "submitScript st = Resolves r # rest"
    and "nextStep r = Some s" and "authenticators s = [a]"
    and "flowStatus r = InProgress" and "redirectHandOff e s"
  shows "currentFlow (handleSubmit e v st) = Some cf \<and>
         currentAuthenticator (handleSubmit e v st) = Some ca \<and>
         formValues (handleSubmit e v st) = formValues st \<and>
         attempts (handleSubmit e v st) = attempts st @ [newAttempt cf a]"
  using assms
  by (simp add: handleSubmit_def awaitOnSubmit_def Let_def touchAllFields_def finish_def
        handleRedirectionIfNeeded_def redirectHandOff_def)

lemma formState_valid:
  "validateForm e (formFields (Some basicAuthenticator)) (formValues (formState\<lparr>submitScript := script\<rparr>))"
  by (simp add: validateForm_def formFields_def basicAuthenticator_def paramsOf_def
        fieldValidator_def valueOf_def formState_def idleState_def blank_def isWhitespace_def)


lemma handleSubmit_rejects_blank_required:
  assumes "currentFlow st = Some cf" and "currentAuthenticator st = Some ca"
    and "p \<in> set (paramsOf ca)" and "param p \<in> set (requiredParams ca)"
    and "blank (valueOf (formValues st) (param p))"
  shows "handleSubmit e v st = touchAllFields st"
proof -
  have "\<not> validateForm e (formFields (Some ca)) (formValues st)"
    using assms(3-5)
    by (auto simp: validateForm_def formFields_def fieldValidator_def list_all_iff)
  with assms(1,2) show ?thesis
    by (simp add: handleSubmit_def Let_def)
qed

lemma passkeyChallenge_orDefault:
  "isPasskeyAuthenticator e a \<Longrightarrow> passkeyChallenge a = Inr (orDefault (challengeDataOf a) [])"
  by (auto simp: orDefault_def dest!: passkeyChallenge_classified)

lemma interpretNextStep_passkeyStep:
  "passkeyStep e r a \<Longrightarrow> interpretNextStep e r st = AutoTrigger a (st\<lparr>currentFlow := Some r\<rparr>)"
  by (auto simp: passkeyStep_def interpretNextStep_def Let_def split: option.splits)

lemma interpretNextStep_ends:
  "\<not> autoTriggers e r \<Longrightarrow> \<exists>st'. interpretNextStep e r st = Settled st'"
  by (auto simp: autoTriggers_def interpretNextStep_def Let_def split: option.splits list.splits)

lemma passkey_step_continues:
  assumes "isPasskeyAuthenticator e a"
    and "webAuthnScript st = Resolves tok # w"
    and "submitScript st = Resolves r # answers"
    and "links cf = l # ls"
    and "passkeyStep e r a'"
  shows "\<exists>st'. handleAuthenticatorSelection e (Some cf) a fd st =
                 finish (handleAuthenticatorSelection e (Some cf) a' None st') \<and>
               trace st' = trace st @
                 [WebAuthn (orDefault (challengeDataOf a) []),
                  OnSubmit (mkPayload cf a [(''tokenResponse'', tok)])
                    \<lparr>reqMethod = linkMethod l, reqUrl = href l\<rparr>,
                  OnFlowChange r] \<and>
               webAuthnScript st' = w \<and> submitScript st' = answers \<and>
               currentAuthenticator st' = currentAuthenticator st \<and>
               formValues st' = formValues st"
proof -
  have status: "flowStatus r = InProgress"
    using assms(5) by (simp add: passkeyStep_def)
  show ?thesis
    apply (subst handleAuthenticatorSelection.simps)
    using assms(1-4) status
    apply (simp add: passkeyChallenge_orDefault awaitOnSubmit_def Let_def touchAllFields_def
             interpretNextStep_passkeyStep [OF assms(5)])
    apply (intro conjI impI)
     apply (rule exI, rule conjI, rule refl, simp)+
    done
qed


lemma passkey_step_ends:
  assumes "isPasskeyAuthenticator e a"
    and "webAuthnScript st = Resolves tok # w"
    and "submitScript st = final"
    and "endsRun e final"
    and "links cf = l # ls"
  shows "\<exists>tail. trace (handleAuthenticatorSelection e (Some cf) a fd st) =
           trace st @
           [WebAuthn (orDefault (challengeDataOf a) []),
            OnSubmit (mkPayload cf a [(''tokenResponse'', tok)])
              \<lparr>reqMethod = linkMethod l, reqUrl = href l\<rparr>] @ tail \<and>
           list_all (\<lambda>ev. \<not> isWebAuthn ev \<and> \<not> isOnSubmit ev) tail \<and>
           (final = [] \<longrightarrow>
              tail = [] \<and>
              currentAuthenticator (handleAuthenticatorSelection e (Some cf) a fd st) =
                currentAuthenticator st \<and>
              formValues (handleAuthenticatorSelection e (Some cf) a fd st) = formValues st)"
proof (cases final)
  case Nil
  show ?thesis
    using assms(1-3,5) Nil
    apply (simp add: handleAuthenticatorSelection.simps [of e "Some cf" a fd st] passkeyChallenge_orDefault awaitOnSubmit_def Let_def touchAllFields_def)
    done
next
  case (Cons out later)
  show ?thesis
  proof (cases out)
    case (Rejects x)
    show ?thesis
      using assms(1-3,5) Cons Rejects
      apply (simp add: handleAuthenticatorSelection.simps [of e "Some cf" a fd st] passkeyChallenge_orDefault awaitOnSubmit_def Let_def touchAllFields_def)
      done
  next
    case (Resolves r)
    consider (terminal) "flowStatus r \<noteq> InProgress" | (settled) "flowStatus r = InProgress" "\<not> autoTriggers e r"
      using assms(4) Cons Resolves by auto
    then show ?thesis
    proof cases
      case terminal
      show ?thesis
          using assms(1-3,5) Cons Resolves terminal
        apply (cases "flowStatus r")
        apply (simp_all add: handleAuthenticatorSelection.simps [of e "Some cf" a fd st] passkeyChallenge_orDefault awaitOnSubmit_def Let_def touchAllFields_def)
        done
    next
      case settled
      have "\<exists>st'. interpretNextStep e r s0 = Settled st' \<and> trace st' = trace s0" for s0
        using interpretNextStep_ends [OF settled(2), of s0] interpretNextStep_Settled by blast
      then obtain next' where next':
        "\<And>s0. interpretNextStep e r s0 = Settled (next' s0) \<and> trace (next' s0) = trace s0"
        by metis
      show ?thesis
          using assms(1-3,5) Cons Resolves settled(1)
        apply (simp add: handleAuthenticatorSelection.simps [of e "Some cf" a fd st] passkeyChallenge_orDefault awaitOnSubmit_def Let_def touchAllFields_def next')
        done
    qed
  qed
qed

lemma count_runEvents:
  "length tokens = Suc (length chain) \<Longrightarrow>
     length (filter isWebAuthn (runEvents cf l a tokens chain)) = Suc (length chain) \<and>
     length (filter isOnSubmit (runEvents cf l a tokens chain)) = Suc (length chain)"
  by (induction cf l a tokens chain rule: runEvents.induct) auto

lemma passkey_run_trace:
  assumes "passkeyRun e a chain"
    and "length tokens = Suc (length chain)"
    and "webAuthnScript st = map Resolves tokens @ laterCeremonies"
    and "submitScript st = map (\<lambda>x. Resolves (fst x)) chain @ final"
    and "endsRun e final"
    and "links cf = l # ls"
  shows "\<exists>tail. trace (handleAuthenticatorSelection e (Some cf) a fd st) =
           trace st @ runEvents cf l a tokens chain @ tail \<and>
           list_all (\<lambda>ev. \<not> isWebAuthn ev \<and> \<not> isOnSubmit ev) tail \<and>
           (final = [] \<longrightarrow>
              tail = [] \<and>
              currentAuthenticator (handleAuthenticatorSelection e (Some cf) a fd st) =
                currentAuthenticator st \<and>
              formValues (handleAuthenticatorSelection e (Some cf) a fd st) = formValues st)"
  using assms(1-4)
proof (induction chain arbitrary: a tokens st fd)
  case Nil
  then obtain tok where tokens: "tokens = [tok]"
    by (cases tokens) auto
  from passkey_step_ends [of e a st tok laterCeremonies final cf l ls fd] Nil tokens assms(5,6)
  show ?case by simp
next
  case (Cons step chain)
  obtain r a' where step: "step = (r, a')"
    by (cases step)
  from Cons.prems(2) obtain tok toks where tokens: "tokens = tok # toks" "length toks = Suc (length chain)"
    by (cases tokens) auto
  from Cons.prems(1) step have run: "isPasskeyAuthenticator e a" "passkeyStep e r a'" "passkeyRun e a' chain"
    by simp_all
  from passkey_step_continues [OF run(1) _ _ assms(6) run(2), of st tok "map Resolves toks @ laterCeremonies"
         "map (\<lambda>x. Resolves (fst x)) chain @ final" fd]
       Cons.prems(3,4) step tokens
  obtain st' where st':
    "handleAuthenticatorSelection e (Some cf) a fd st =
       finish (handleAuthenticatorSelection e (Some cf) a' None st')"
    "trace st' = trace st @
       [WebAuthn (orDefault (challengeDataOf a) []),
        OnSubmit (mkPayload cf a [(''tokenResponse'', tok)])
          \<lparr>reqMethod = linkMethod l, reqUrl = href l\<rparr>,
        OnFlowChange r]"
    "webAuthnScript st' = map Resolves toks @ laterCeremonies"
    "submitScript st' = map (\<lambda>x. Resolves (fst x)) chain @ final"
    "currentAuthenticator st' = currentAuthenticator st"
    "formValues st' = formValues st"
    by auto
  from Cons.IH [OF run(3) tokens(2) st'(3,4), of None]
  obtain tail where tail:
    "trace (handleAuthenticatorSelection e (Some cf) a' None st') =
       trace st' @ runEvents cf l a' toks chain @ tail"
    "list_all (\<lambda>ev. \<not> isWebAuthn ev \<and> \<not> isOnSubmit ev) tail"
    "final = [] \<longrightarrow>
       tail = [] \<and>
       currentAuthenticator (handleAuthenticatorSelection e (Some cf) a' None st') =
         currentAuthenticator st' \<and>
       formValues (handleAuthenticatorSelection e (Some cf) a' None st') = formValues st'"
    by blast
  have frame: "formValues (finish x) = formValues x" for x
    by (simp add: finish_def)
  show ?case
    apply (rule exI [of _ tail])
    using st' tail step tokens
    apply (simp add: frame)
    done
qed

text \<open>What does hold of the coordinator, with every handler run as one step: once released,
  an attempt does nothing more; no sequence of events runs \<^verbatim>\<open>cleanup\<close> twice; and when the
  message channel completes first, nothing is submitted after it.\<close>

lemma deliver_released:
  "\<not> listenerAttached a \<Longrightarrow> \<not> timerActive a \<Longrightarrow>
     \<exists>a'. deliver e (a, st) ev = (a', st) \<and> \<not> listenerAttached a' \<and> \<not> timerActive a'"
  by (cases ev) (simp_all add: deliver_def)

lemma deliverAll_released:
  "\<not> listenerAttached a \<Longrightarrow> \<not> timerActive a \<Longrightarrow> snd (deliverAll e evs (a, st)) = st"
proof (induction evs arbitrary: a)
  case Nil
  then show ?case by (simp add: deliverAll_def)
next
  case (Cons ev evs)
  from deliver_released [OF Cons.prems, of e st ev] obtain a' where
    "deliver e (a, st) ev = (a', st)" "\<not> listenerAttached a'" "\<not> timerActive a'"
    by blast
  with Cons.IH [of a'] show ?case
    by (simp add: deliverAll_def)
qed

lemma awaitOnSubmit_releases:
  "awaitOnSubmit cf p st = (res, st') \<Longrightarrow> releases (trace st') = releases (trace st)"
  by (auto dest!: awaitOnSubmit_cases)

lemma cleanup_releases:
  "cleanup (a, st) = (a', st') \<Longrightarrow>
     releases (trace st') = Suc (releases (trace st)) \<and> \<not> listenerAttached a' \<and> \<not> timerActive a'"
  by (auto simp: cleanup_def)

lemma messageEventHandler_releases:
  assumes "messageEventHandler e m (a, st) = (a', st')"
  shows "releases (trace st') = releases (trace st) \<or>
         (releases (trace st') = Suc (releases (trace st)) \<and> \<not> listenerAttached a' \<and> \<not> timerActive a')"
  using assms
  by (auto simp: messageEventHandler_def cleanup_def
        split: if_splits option.splits prod.splits submit_result.splits
        dest!: awaitOnSubmit_releases)

lemma popupMonitor_releases:
  assumes "popupMonitor e obs (a, st) = (a', st')"
  shows "releases (trace st') = releases (trace st) \<or>
         (releases (trace st') = Suc (releases (trace st)) \<and> \<not> listenerAttached a' \<and> \<not> timerActive a')"
  using assms
  by (auto simp: popupMonitor_def cleanup_def Let_def
        split: if_splits option.splits prod.splits submit_result.splits location_read.splits
        dest!: awaitOnSubmit_releases)

lemma deliver_releases:
  assumes "deliver e (a, st) ev = (a', st')"
  shows "releases (trace st') = releases (trace st) \<or>
         (releases (trace st') = Suc (releases (trace st)) \<and> \<not> listenerAttached a' \<and> \<not> timerActive a')"
  using assms messageEventHandler_releases popupMonitor_releases
  by (cases ev) (auto simp: deliver_def split: if_splits)

lemma release_at_most_once:
  "releases (trace (snd (deliverAll e evs (a, st)))) \<le> Suc (releases (trace st))"
proof (induction evs arbitrary: a st)
  case Nil
  then show ?case by (simp add: deliverAll_def)
next
  case (Cons ev evs)
  obtain a' st' where step: "deliver e (a, st) ev = (a', st')"
    by (cases "deliver e (a, st) ev")
  have unfold: "deliverAll e (ev # evs) (a, st) = deliverAll e evs (a', st')"
    by (simp add: deliverAll_def step)
  from deliver_releases [OF step] show ?case
  proof
    assume "releases (trace st') = releases (trace st)"
    with Cons.IH [of a' st'] unfold show ?thesis by simp
  next
    assume "releases (trace st') = Suc (releases (trace st)) \<and> \<not> listenerAttached a' \<and> \<not> timerActive a'"
    with deliverAll_released [of a' e evs st'] unfold show ?thesis by simp
  qed
qed

lemma message_first_submits_once:
  assumes "evSource ev = FromPopup"
    and "expectedOrigin e = Some eo"
    and "evOrigin ev = eo \<or> evOrigin ev = windowOrigin e"
    and "evData ev = Some \<lparr>dataCode = Some c, dataState = Some s\<rparr>"
    and "c \<noteq> []" and "s \<noteq> []"
    and "listenerAttached a"
    and "links (attemptFlow a) = l # ls"
    and "submitScript st = Resolves r # rest"
  shows "trace (snd (deliverAll e (Message ev # later) (a, st))) =
           trace st @
           [OnSubmit (mkPayload (attemptFlow a) (responseAuthenticator a) [(''code'', c), (''state'', s)])
                     \<lparr>reqMethod = linkMethod l, reqUrl = href l\<rparr>,
            PopupClose, RemoveMessageListener, ClearInterval]"
proof -
  obtain a' st' where step: "deliver e (a, st) (Message ev) = (a', st')"
    by (cases "deliver e (a, st) (Message ev)")
  from step assms have result:
    "trace st' = trace st @
           [OnSubmit (mkPayload (attemptFlow a) (responseAuthenticator a) [(''code'', c), (''state'', s)])
                     \<lparr>reqMethod = linkMethod l, reqUrl = href l\<rparr>,
            PopupClose, RemoveMessageListener, ClearInterval]"
    "\<not> listenerAttached a'" "\<not> timerActive a'"
    by (auto simp: deliver_def messageEventHandler_def awaitOnSubmit_def cleanup_def Let_def)
  have "deliverAll e (Message ev # later) (a, st) = deliverAll e later (a', st')"
    by (simp add: deliverAll_def step)
  with deliverAll_released [OF result(2,3), of e later st'] result(1) show ?thesis
    by simp
qed

text \<open>The handlers split at their \<^verbatim>\<open>await\<close>. Run without anything in between, the two
  halves are the handlers above.\<close>

lemma messageEventHandler_split:
  "messageEventHandler e m x = settleAtOnce (messageEventHandlerCall e m x)"
  by (auto simp: messageEventHandler_def messageEventHandlerCall_def settleAtOnce_def resume_def
        awaitOnSubmit_def callOnSubmit_def cleanup_def Let_def
        split: prod.splits option.splits list.splits outcome.splits if_splits)

lemma popupMonitor_split:
  "popupMonitor e obs x = settleAtOnce (popupMonitorCall e obs x)"
  by (auto simp: popupMonitor_def popupMonitorCall_def settleAtOnce_def resume_def
        awaitOnSubmit_def callOnSubmit_def cleanup_def Let_def
        split: prod.splits option.splits list.splits outcome.splits if_splits location_read.splits)

text \<open>With other events handled between the two halves: a step either releases and counts
  one more release, or leaves both registrations and the count as they were; a closed popup
  stays closed; a released attempt stays released; and once the popup is closed while the
  interval is set, any run that contains a tick ends released, whatever else it contains.\<close>

lemma cleanup_idempotent:
  "fst (cleanup (cleanup x)) = fst (cleanup x)"
  by (cases x) (simp add: cleanup_def)

lemma callOnSubmit_releases:
  "callOnSubmit cf p st = Some st' \<Longrightarrow> releases (trace st') = releases (trace st)"
  by (auto simp: callOnSubmit_def split: list.splits)

lemma messageEventHandlerCall_frame:
  "messageEventHandlerCall e m (a, st) = ((a', st'), k) \<Longrightarrow>
     a' = a \<and> releases (trace st') = releases (trace st)"
  by (auto simp: messageEventHandlerCall_def
        split: if_splits option.splits dest!: callOnSubmit_releases)

lemma popupMonitorCall_frame:
  assumes "popupMonitorCall e obs (a, st) = ((a', st'), k)"
  shows "(popupClosed a \<longrightarrow> (a', st') = cleanup (a, st) \<and> k = None) \<and>
         (popupClosed a \<or> popupClosed a' \<longrightarrow>
            released a' \<and> popupClosed a' \<and> releases (trace st') = Suc (releases (trace st))) \<and>
         (\<not> popupClosed a' \<longrightarrow>
            listenerAttached a' = listenerAttached a \<and> timerActive a' = timerActive a \<and>
            releases (trace st') = releases (trace st))"
  using assms
  by (auto simp: popupMonitorCall_def cleanup_def released_def Let_def
        split: if_splits option.splits location_read.splits dest!: callOnSubmit_releases)

lemma resume_frame:
  assumes "resume k answer (a, st) = (a', st')"
  shows "(popupClosed a \<longrightarrow> popupClosed a') \<and>
         ((released a' \<and> releases (trace st') = Suc (releases (trace st))) \<or>
          (listenerAttached a' = listenerAttached a \<and> timerActive a' = timerActive a \<and>
           releases (trace st') = releases (trace st)))"
  using assms
  by (auto simp: resume_def cleanup_def released_def
        split: outcome.splits continuation.splits)

lemma asyncStep_frame:
  assumes "asyncStep e ((a, st), suspended) ev = ((a', st'), suspended')"
  shows "(popupClosed a \<longrightarrow> popupClosed a') \<and>
         ((released a' \<and> releases (trace st') = Suc (releases (trace st))) \<or>
          (listenerAttached a' = listenerAttached a \<and> timerActive a' = timerActive a \<and>
           releases (trace st') = releases (trace st)))"
proof (cases ev)
  case (Handled h)
  show ?thesis
  proof (cases h)
    case (Message m)
    with Handled assms show ?thesis
      by (auto simp: asyncStep_def split: if_splits prod.splits
            dest!: messageEventHandlerCall_frame)
  next
    case (Tick obs)
    show ?thesis
    proof (cases "timerActive a")
      case True
      obtain k where call: "popupMonitorCall e obs (a, st) = ((a', st'), k)"
        using assms Handled Tick True
        by (auto simp: asyncStep_def split: prod.splits)
      from popupMonitorCall_frame [OF call] show ?thesis
        by (cases "popupClosed a'") auto
    next
      case False
      with Handled Tick assms show ?thesis
        by (auto simp: asyncStep_def)
    qed
  next
    case UserClosesPopup
    with Handled assms show ?thesis
      by (auto simp: asyncStep_def)
  qed
next
  case (Settles n answer)
  show ?thesis
  proof (cases "n < length suspended")
    case True
    with Settles assms have "resume (suspended ! n) answer (a, st) = (a', st')"
      by (simp add: asyncStep_def)
    from resume_frame [OF this] show ?thesis .
  next
    case False
    with Settles assms show ?thesis
      by (auto simp: asyncStep_def)
  qed
qed

lemma asyncStep_tick_closed:
  "popupClosed a \<Longrightarrow> timerActive a \<Longrightarrow>
     asyncStep e ((a, st), suspended) (Handled (Tick obs)) = (cleanup (a, st), suspended)"
  by (simp add: asyncStep_def popupMonitorCall_def)

lemma asyncRun_Cons:
  "asyncRun e (ev # evs) c = asyncRun e evs (asyncStep e c ev)"
  by (simp add: asyncRun_def)

lemma asyncRun_released:
  assumes "released a"
  shows "released (fst (fst (asyncRun e evs ((a, st), suspended)))) \<and>
         releases (trace st) \<le> releases (trace (snd (fst (asyncRun e evs ((a, st), suspended)))))"
  using assms
proof (induction evs arbitrary: a st suspended)
  case Nil
  then show ?case by (simp add: asyncRun_def)
next
  case (Cons ev evs)
  obtain a' st' suspended' where step: "asyncStep e ((a, st), suspended) ev = ((a', st'), suspended')"
    by (metis surj_pair)
  from asyncStep_frame [OF step] Cons.prems
  have "released a'" "releases (trace st) \<le> releases (trace st')"
    by (auto simp: released_def)
  with Cons.IH [of a' st' suspended'] show ?case
    by (simp add: asyncRun_Cons step)
qed

lemma closed_popup_released_by_tick:
  assumes "popupClosed a" and "timerActive a" and "Handled (Tick obs) \<in> set evs"
  shows "released (fst (fst (asyncRun e evs ((a, st), suspended)))) \<and>
         Suc (releases (trace st)) \<le> releases (trace (snd (fst (asyncRun e evs ((a, st), suspended)))))"
  using assms
proof (induction evs arbitrary: a st suspended)
  case Nil
  then show ?case by simp
next
  case (Cons ev evs)
  obtain a' st' suspended' where step: "asyncStep e ((a, st), suspended) ev = ((a', st'), suspended')"
    by (metis surj_pair)
  note frame = asyncStep_frame [OF step]
  show ?case
  proof (cases "released a'")
    case True
    with frame Cons.prems(2) have "releases (trace st') = Suc (releases (trace st))"
      by (auto simp: released_def)
    with asyncRun_released [OF True, of e evs st' suspended'] show ?thesis
      by (simp add: asyncRun_Cons step)
  next
    case False
    with frame Cons.prems(1,2) have still: "popupClosed a'" "timerActive a'"
      and same: "releases (trace st') = releases (trace st)"
      by auto
    have "ev \<noteq> Handled (Tick obs)"
    proof
      assume "ev = Handled (Tick obs)"
      with step asyncStep_tick_closed [OF Cons.prems(1,2), of e st suspended obs]
      have "(a', st') = cleanup (a, st)" by simp
      then have "released a'" by (auto simp: cleanup_def released_def)
      with False show False ..
    qed
    with Cons.prems(3) have "Handled (Tick obs) \<in> set evs" by simp
    from Cons.IH [OF still this, of st' suspended'] same show ?thesis
      by (simp add: asyncRun_Cons step)
  qed
qed

text \<open>The four exits, each followed from the event that starts it to the release.\<close>

lemma includesStr_nonempty:
  "includesStr u (p # ps) \<Longrightarrow> u \<noteq> []"
  by (cases u) simp_all

lemma message_exit_releases:
  assumes "listenerAttached a" and "evSource ev = FromPopup" and "expectedOrigin e = Some eo"
    and "evOrigin ev = eo \<or> evOrigin ev = windowOrigin e"
    and "evData ev = Some \<lparr>dataCode = Some c, dataState = Some s\<rparr>"
    and "c \<noteq> []" and "s \<noteq> []" and "links (attemptFlow a) = l # ls"
  shows "(case fst (asyncRun e [Handled (Message ev), Settles 0 (Resolves r)] ((a, st), [])) of
           (a', st') \<Rightarrow>
             popupClosed a' \<and> released a' \<and>
             trace st' = trace st @
               [OnSubmit (mkPayload (attemptFlow a) (responseAuthenticator a)
                            [(''code'', c), (''state'', s)])
                         \<lparr>reqMethod = linkMethod l, reqUrl = href l\<rparr>,
                PopupClose, RemoveMessageListener, ClearInterval])"
  using assms
  by (auto simp: asyncRun_def asyncStep_def messageEventHandlerCall_def callOnSubmit_def
        resume_def cleanup_def released_def)

lemma poll_error_exit_releases:
  assumes "timerActive a" and "\<not> popupClosed a" and "\<not> hasProcessedCallback a"
    and "includesStr u ''error=''" and "truthy (searchParam e u ''error'')"
  shows "(case fst (asyncRun e [Handled (Tick (Href u))] ((a, st), [])) of
           (a', st') \<Rightarrow>
             popupClosed a' \<and> released a' \<and>
             trace st' = trace st @
               [ConsoleError (OAuthError (orDefault (searchParam e u ''error'') [])),
                PopupClose, RemoveMessageListener, ClearInterval])"
  using assms includesStr_nonempty [OF assms(4)]
  by (simp add: asyncRun_def asyncStep_def popupMonitorCall_def cleanup_def released_def)

lemma poll_code_exit_releases:
  assumes "timerActive a" and "\<not> popupClosed a" and "\<not> hasProcessedCallback a"
    and "includesStr u ''code=''" and "\<not> truthy (searchParam e u ''error'')"
    and "searchParam e u ''code'' = Some c" and "searchParam e u ''state'' = Some s"
    and "c \<noteq> []" and "s \<noteq> []" and "links (attemptFlow a) = l # ls"
  shows "(case fst (asyncRun e [Handled (Tick (Href u)), Settles 0 (Resolves r)] ((a, st), [])) of
           (a', st') \<Rightarrow>
             popupClosed a' \<and> timerActive a' \<and> listenerAttached a' = listenerAttached a \<and>
             trace st' = trace st @
               [OnSubmit (mkPayload (attemptFlow a) (responseAuthenticator a)
                            [(''code'', c), (''state'', s)])
                         \<lparr>reqMethod = linkMethod l, reqUrl = href l\<rparr>,
                PopupClose, OnFlowChange r] @
               (if flowStatus r = SuccessCompleted then [OnSuccess (authData r)] else [])) \<and>
         (case fst (asyncRun e [Handled (Tick (Href u)), Settles 0 (Resolves r), Handled (Tick obs)]
                      ((a, st), [])) of
           (a', st') \<Rightarrow>
             popupClosed a' \<and> released a' \<and>
             trace st' = trace st @
               [OnSubmit (mkPayload (attemptFlow a) (responseAuthenticator a)
                            [(''code'', c), (''state'', s)])
                         \<lparr>reqMethod = linkMethod l, reqUrl = href l\<rparr>,
                PopupClose, OnFlowChange r] @
               (if flowStatus r = SuccessCompleted then [OnSuccess (authData r)] else []) @
               [RemoveMessageListener, ClearInterval])"
  using assms includesStr_nonempty [OF assms(4)]
  by (simp add: asyncRun_def asyncStep_def popupMonitorCall_def callOnSubmit_def
        resume_def cleanup_def released_def)

lemma user_closure_exit_releases:
  assumes "timerActive a"
  shows "(case fst (asyncRun e [Handled UserClosesPopup, Handled (Tick obs)] ((a, st), [])) of
           (a', st') \<Rightarrow>
             popupClosed a' \<and> released a' \<and>
             trace st' = trace st @ [RemoveMessageListener, ClearInterval])"
  using assms
  by (simp add: asyncRun_def asyncStep_def popupMonitorCall_def cleanup_def released_def)

subsection \<open>RedirectCompletionCoordinator\<close>

text \<open>
  Claim C1 says that when both channels extract a valid code and state for one redirect
  attempt, exactly one payload is submitted, because one latch covers both channels.
  In the code \<^verbatim>\<open>hasProcessedCallback\<close> is read and written by the poll callback only, and
  the poll callback does not release the listener when it has submitted. At the input
  below the poll channel sees the callback address first and the popup's message arrives
  afterwards: \<^verbatim>\<open>onSubmit\<close> is called twice with the same payload.
\<close>

theorem poll_then_message_submits_twice:
  "trace (snd (deliverAll exampleEnv
                 [Tick (Href ''https://app/cb?code=abc&state=xyz''), Message callbackMessage]
                 (newAttempt redirectFlow googleAuthenticator,
                  idleState\<lparr>submitScript := [Resolves successResponse, Resolves successResponse]\<rparr>)))
   = [OnSubmit codePayload exampleRequest, PopupClose, OnFlowChange successResponse,
      OnSuccess (authData successResponse),
      OnSubmit codePayload exampleRequest, PopupClose, RemoveMessageListener, ClearInterval]"
  by (simp add: deliverAll_def deliver_def popupMonitor_def messageEventHandler_def
        awaitOnSubmit_def cleanup_def newAttempt_def idleState_def exampleEnv_def
        callbackMessage_def redirectFlow_def successResponse_def codePayload_def
        exampleRequest_def exampleLink_def truthy_def expectedOrigin_def Let_def)

text \<open>
  Claim C2 says that on every exit of the coordinator the release step runs exactly once.
  \<^verbatim>\<open>cleanup\<close> has no guard of its own, and the rest of a suspended message handler runs
  whether or not the listener is still registered. At the input below the popup's message
  arrives and the handler waits for its submission; the user closes the popup; the next
  tick finds it closed and releases; then the submission resolves and the message handler
  closes the popup and releases again: \<^verbatim>\<open>cleanup\<close> runs twice for one attempt.
\<close>

theorem suspended_message_handler_releases_again:
  "trace (snd (fst (asyncRun exampleEnv
       [Handled (Message callbackMessage), Handled UserClosesPopup,
        Handled (Tick CrossOriginBlocked), Settles 0 (Resolves successResponse)]
       ((newAttempt redirectFlow googleAuthenticator, idleState), [])))) =
     [OnSubmit codePayload exampleRequest, RemoveMessageListener, ClearInterval,
      PopupClose, RemoveMessageListener, ClearInterval] \<and>
   releases (trace (snd (fst (asyncRun exampleEnv
       [Handled (Message callbackMessage), Handled UserClosesPopup,
        Handled (Tick CrossOriginBlocked), Settles 0 (Resolves successResponse)]
       ((newAttempt redirectFlow googleAuthenticator, idleState), []))))) = 2"
  by (simp add: asyncRun_def asyncStep_def messageEventHandlerCall_def popupMonitorCall_def
        resume_def callOnSubmit_def cleanup_def newAttempt_def idleState_def exampleEnv_def
        callbackMessage_def redirectFlow_def successResponse_def codePayload_def
        exampleRequest_def exampleLink_def truthy_def expectedOrigin_def Let_def)

text \<open>
  Claim C2 as amended: on every exit of the coordinator the release step runs, and nothing
  makes it run once only. Completion via the message channel (the submission resolved)
  and error completion via the poll channel close the popup and release before the
  handler ends. Code/state completion via the poll channel (the submission resolved)
  closes the popup and reports the answer without releasing, and user closure leaves the
  popup closed: in both cases the first tick that follows releases. In general, once the
  popup is closed while the interval is set, every run of events that contains a tick
  ends released and has released at least once, whatever is handled or resumed around
  that tick. Releasing a second time changes nothing in the registrations.
\<close>

theorem every_exit_releases:
  "(listenerAttached a \<and> evSource ev = FromPopup \<and> expectedOrigin e = Some eo \<and>
    (evOrigin ev = eo \<or> evOrigin ev = windowOrigin e) \<and>
    evData ev = Some \<lparr>dataCode = Some c, dataState = Some s\<rparr> \<and>
    c \<noteq> [] \<and> s \<noteq> [] \<and> links (attemptFlow a) = l # ls \<longrightarrow>
      (case fst (asyncRun e [Handled (Message ev), Settles 0 (Resolves r)] ((a, st), [])) of
         (a', st') \<Rightarrow>
           popupClosed a' \<and> released a' \<and>
           trace st' = trace st @
             [OnSubmit (mkPayload (attemptFlow a) (responseAuthenticator a)
                          [(''code'', c), (''state'', s)])
                       \<lparr>reqMethod = linkMethod l, reqUrl = href l\<rparr>,
              PopupClose, RemoveMessageListener, ClearInterval])) \<and>
   (timerActive a \<and> \<not> popupClosed a \<and> \<not> hasProcessedCallback a \<and>
    includesStr ue ''error='' \<and> truthy (searchParam e ue ''error'') \<longrightarrow>
      (case fst (asyncRun e [Handled (Tick (Href ue))] ((a, st), [])) of
         (a', st') \<Rightarrow>
           popupClosed a' \<and> released a' \<and>
           trace st' = trace st @
             [ConsoleError (OAuthError (orDefault (searchParam e ue ''error'') [])),
              PopupClose, RemoveMessageListener, ClearInterval])) \<and>
   (timerActive a \<and> \<not> popupClosed a \<and> \<not> hasProcessedCallback a \<and>
    includesStr uc ''code='' \<and> \<not> truthy (searchParam e uc ''error'') \<and>
    searchParam e uc ''code'' = Some c \<and> searchParam e uc ''state'' = Some s \<and>
    c \<noteq> [] \<and> s \<noteq> [] \<and> links (attemptFlow a) = l # ls \<longrightarrow>
      (case fst (asyncRun e [Handled (Tick (Href uc)), Settles 0 (Resolves r)] ((a, st), [])) of
         (a', st') \<Rightarrow>
           popupClosed a' \<and> timerActive a' \<and> listenerAttached a' = listenerAttached a \<and>
           trace st' = trace st @
             [OnSubmit (mkPayload (attemptFlow a) (responseAuthenticator a)
                          [(''code'', c), (''state'', s)])
                       \<lparr>reqMethod = linkMethod l, reqUrl = href l\<rparr>,
              PopupClose, OnFlowChange r] @
             (if flowStatus r = SuccessCompleted then [OnSuccess (authData r)] else [])) \<and>
      (case fst (asyncRun e [Handled (Tick (Href uc)), Settles 0 (Resolves r), Handled (Tick obs)]
                   ((a, st), [])) of
         (a', st') \<Rightarrow>
           popupClosed a' \<and> released a' \<and>
           trace st' = trace st @
             [OnSubmit (mkPayload (attemptFlow a) (responseAuthenticator a)
                          [(''code'', c), (''state'', s)])
                       \<lparr>reqMethod = linkMethod l, reqUrl = href l\<rparr>,
              PopupClose, OnFlowChange r] @
             (if flowStatus r = SuccessCompleted then [OnSuccess (authData r)] else []) @
             [RemoveMessageListener, ClearInterval])) \<and>
   (timerActive a \<longrightarrow>
      (case fst (asyncRun e [Handled UserClosesPopup, Handled (Tick obs)] ((a, st), [])) of
         (a', st') \<Rightarrow>
           popupClosed a' \<and> released a' \<and>
           trace st' = trace st @ [RemoveMessageListener, ClearInterval])) \<and>
   (popupClosed b \<and> timerActive b \<and> Handled (Tick obs) \<in> set evs \<longrightarrow>
      released (fst (fst (asyncRun e evs ((b, st), suspended)))) \<and>
      Suc (releases (trace st)) \<le> releases (trace (snd (fst (asyncRun e evs ((b, st), suspended)))))) \<and>
   fst (cleanup (cleanup (a, st))) = fst (cleanup (a, st))"
  (is "?message \<and> ?pollError \<and> ?pollCode \<and> ?closure \<and> ?anyRun \<and> ?idempotent")
proof -
  have "?message"
    by (intro impI, (elim conjE)?, rule message_exit_releases; assumption)
  moreover have "?pollError"
    by (intro impI, (elim conjE)?, rule poll_error_exit_releases; assumption)
  moreover have "?pollCode"
    by (intro impI, (elim conjE)?, rule poll_code_exit_releases; assumption)
  moreover have "?closure"
    by (intro impI, (elim conjE)?, rule user_closure_exit_releases; assumption)
  moreover have "?anyRun"
    by (intro impI, (elim conjE)?, rule closed_popup_released_by_tick; assumption)
  moreover have "?idempotent"
    by (rule cleanup_idempotent)
  ultimately show ?thesis
    by (intro conjI)
qed

theorem every_exit_releases_witness:
  "released (fst (fst (asyncRun denyingEnv
       [Handled (Message callbackMessage), Settles 0 (Resolves successResponse)]
       ((newAttempt redirectFlow googleAuthenticator, idleState), [])))) \<and>
   trace (snd (fst (asyncRun denyingEnv
       [Handled (Message callbackMessage), Settles 0 (Resolves successResponse)]
       ((newAttempt redirectFlow googleAuthenticator, idleState), [])))) =
     [OnSubmit codePayload exampleRequest, PopupClose, RemoveMessageListener, ClearInterval] \<and>
   released (fst (fst (asyncRun denyingEnv
       [Handled (Tick (Href ''https://app/cb?error=access_denied''))]
       ((newAttempt redirectFlow googleAuthenticator, idleState), [])))) \<and>
   trace (snd (fst (asyncRun denyingEnv
       [Handled (Tick (Href ''https://app/cb?error=access_denied''))]
       ((newAttempt redirectFlow googleAuthenticator, idleState), [])))) =
     [ConsoleError (OAuthError ''access_denied''), PopupClose, RemoveMessageListener, ClearInterval] \<and>
   timerActive (fst (fst (asyncRun denyingEnv
       [Handled (Tick (Href ''https://app/cb?code=abc&state=xyz'')), Settles 0 (Resolves successResponse)]
       ((newAttempt redirectFlow googleAuthenticator, idleState), [])))) \<and>
   released (fst (fst (asyncRun denyingEnv
       [Handled (Tick (Href ''https://app/cb?code=abc&state=xyz'')), Settles 0 (Resolves successResponse),
        Handled (Tick CrossOriginBlocked)]
       ((newAttempt redirectFlow googleAuthenticator, idleState), [])))) \<and>
   trace (snd (fst (asyncRun denyingEnv
       [Handled (Tick (Href ''https://app/cb?code=abc&state=xyz'')), Settles 0 (Resolves successResponse),
        Handled (Tick CrossOriginBlocked)]
       ((newAttempt redirectFlow googleAuthenticator, idleState), [])))) =
     [OnSubmit codePayload exampleRequest, PopupClose, OnFlowChange successResponse,
      OnSuccess (authData successResponse), RemoveMessageListener, ClearInterval] \<and>
   released (fst (fst (asyncRun denyingEnv
       [Handled UserClosesPopup, Handled (Tick CrossOriginBlocked)]
       ((newAttempt redirectFlow googleAuthenticator, idleState), [])))) \<and>
   trace (snd (fst (asyncRun denyingEnv
       [Handled UserClosesPopup, Handled (Tick CrossOriginBlocked)]
       ((newAttempt redirectFlow googleAuthenticator, idleState), [])))) =
     [RemoveMessageListener, ClearInterval] \<and>
   released (fst (fst (asyncRun denyingEnv
       [Handled (Message callbackMessage), Handled (Tick CrossOriginBlocked),
        Settles 0 (Resolves successResponse)]
       (((newAttempt redirectFlow googleAuthenticator)\<lparr>popupClosed := True\<rparr>, idleState), [])))) \<and>
   1 \<le> releases (trace (snd (fst (asyncRun denyingEnv
       [Handled (Message callbackMessage), Handled (Tick CrossOriginBlocked),
        Settles 0 (Resolves successResponse)]
       (((newAttempt redirectFlow googleAuthenticator)\<lparr>popupClosed := True\<rparr>, idleState), []))))) \<and>
   fst (cleanup (cleanup (newAttempt redirectFlow googleAuthenticator, idleState))) =
     fst (cleanup (newAttempt redirectFlow googleAuthenticator, idleState))"
  using every_exit_releases
          [where a = "newAttempt redirectFlow googleAuthenticator" and ev = callbackMessage
             and e = denyingEnv and eo = "''https://app''" and c = "''abc''" and s = "''xyz''"
             and l = exampleLink and ls = "[]" and r = successResponse and st = idleState
             and ue = "''https://app/cb?error=access_denied''"
             and uc = "''https://app/cb?code=abc&state=xyz''" and obs = CrossOriginBlocked
             and b = "(newAttempt redirectFlow googleAuthenticator)\<lparr>popupClosed := True\<rparr>"
             and evs = "[Handled (Message callbackMessage), Handled (Tick CrossOriginBlocked),
                         Settles 0 (Resolves successResponse)]"
             and suspended = "[]"]
  by (simp add: case_prod_beta denyingEnv_def exampleEnv_def expectedOrigin_def truthy_def
        orDefault_def callbackMessage_def newAttempt_def redirectFlow_def idleState_def
        successResponse_def codePayload_def exampleRequest_def exampleLink_def)

text \<open>
  Claim C3: a message whose source is not the opened popup, or whose origin is neither
  the expected origin (the origin of \<^verbatim>\<open>afterSignInUrl\<close>, the host origin when that prop is
  not set) nor the host's own origin, leaves the attempt and the component state as they
  were: nothing is extracted, nothing is submitted.
\<close>

theorem untrusted_message_ignored:
  assumes "evSource ev \<noteq> FromPopup \<or>
           (expectedOrigin e \<noteq> Some (evOrigin ev) \<and> evOrigin ev \<noteq> windowOrigin e)"
  shows "messageEventHandler e ev (a, st) = (a, st) \<and> deliver e (a, st) (Message ev) = (a, st)"
  using assms
  by (auto simp: messageEventHandler_def deliver_def split: option.splits)

theorem untrusted_message_ignored_witness:
  "evSource foreignMessage = FromPopup \<and>
   expectedOrigin exampleEnv \<noteq> Some (evOrigin foreignMessage) \<and>
   evOrigin foreignMessage \<noteq> windowOrigin exampleEnv \<and>
   messageEventHandler exampleEnv foreignMessage
     (newAttempt redirectFlow googleAuthenticator,
      idleState\<lparr>submitScript := [Resolves successResponse]\<rparr>)
   = (newAttempt redirectFlow googleAuthenticator,
      idleState\<lparr>submitScript := [Resolves successResponse]\<rparr>)"
  using untrusted_message_ignored [of foreignMessage exampleEnv
          "newAttempt redirectFlow googleAuthenticator"
          "idleState\<lparr>submitScript := [Resolves successResponse]\<rparr>"]
  by (simp add: foreignMessage_def exampleEnv_def expectedOrigin_def)

text \<open>
  Claim C10: when a trusted message carrying code and state completes the attempt, the
  answer of that submission is dropped: the handler submits, closes the popup and
  releases, and never calls \<^verbatim>\<open>onFlowChange\<close> or \<^verbatim>\<open>onSuccess\<close>, whatever the status of the
  answer. The poll callback, given the same code and state and the same answer, calls
  \<^verbatim>\<open>onFlowChange\<close> with it and \<^verbatim>\<open>onSuccess\<close> when its status is SuccessCompleted.
\<close>

theorem message_completion_discards_response:
  assumes "evSource ev = FromPopup"
    and "expectedOrigin e = Some eo"
    and "evOrigin ev = eo \<or> evOrigin ev = windowOrigin e"
    and "evData ev = Some \<lparr>dataCode = Some c, dataState = Some s\<rparr>"
    and "c \<noteq> []" and "s \<noteq> []"
    and "includesStr u ''code=''"
    and "\<not> truthy (searchParam e u ''error'')"
    and "searchParam e u ''code'' = Some c"
    and "searchParam e u ''state'' = Some s"
    and "\<not> popupClosed a" and "\<not> hasProcessedCallback a"
    and "links (attemptFlow a) = l # ls"
    and "submitScript st = Resolves r # rest"
  shows "trace (snd (messageEventHandler e ev (a, st))) =
           trace st @
           [OnSubmit (mkPayload (attemptFlow a) (responseAuthenticator a) [(''code'', c), (''state'', s)])
                     \<lparr>reqMethod = linkMethod l, reqUrl = href l\<rparr>,
            PopupClose, RemoveMessageListener, ClearInterval] \<and>
         trace (snd (popupMonitor e (Href u) (a, st))) =
           trace st @
           [OnSubmit (mkPayload (attemptFlow a) (responseAuthenticator a) [(''code'', c), (''state'', s)])
                     \<lparr>reqMethod = linkMethod l, reqUrl = href l\<rparr>,
            PopupClose, OnFlowChange r] @
           (if flowStatus r = SuccessCompleted then [OnSuccess (authData r)] else [])"
proof -
  have nonempty: "u \<noteq> []"
    using assms(7) by (cases u) auto
  have m: "trace (snd (messageEventHandler e ev (a, st))) =
           trace st @
           [OnSubmit (mkPayload (attemptFlow a) (responseAuthenticator a) [(''code'', c), (''state'', s)])
                     \<lparr>reqMethod = linkMethod l, reqUrl = href l\<rparr>,
            PopupClose, RemoveMessageListener, ClearInterval]"
    using assms(1-6,13,14)
    by (auto simp: messageEventHandler_def awaitOnSubmit_def cleanup_def Let_def)
  have p: "trace (snd (popupMonitor e (Href u) (a, st))) =
           trace st @
           [OnSubmit (mkPayload (attemptFlow a) (responseAuthenticator a) [(''code'', c), (''state'', s)])
                     \<lparr>reqMethod = linkMethod l, reqUrl = href l\<rparr>,
            PopupClose, OnFlowChange r] @
           (if flowStatus r = SuccessCompleted then [OnSuccess (authData r)] else [])"
    using assms(5-14) nonempty
    by (simp add: popupMonitor_def awaitOnSubmit_def Let_def)
  from m p show ?thesis by simp
qed

theorem message_completion_discards_response_witness:
  "trace (snd (messageEventHandler exampleEnv callbackMessage
                 (newAttempt redirectFlow googleAuthenticator,
                  idleState\<lparr>submitScript := [Resolves successResponse]\<rparr>))) =
     [OnSubmit codePayload exampleRequest, PopupClose, RemoveMessageListener, ClearInterval] \<and>
   trace (snd (popupMonitor exampleEnv (Href ''https://app/cb?code=abc&state=xyz'')
                 (newAttempt redirectFlow googleAuthenticator,
                  idleState\<lparr>submitScript := [Resolves successResponse]\<rparr>))) =
     [OnSubmit codePayload exampleRequest, PopupClose, OnFlowChange successResponse,
      OnSuccess (authData successResponse)]"
  using message_completion_discards_response
          [of callbackMessage exampleEnv "''https://app''" "''abc''" "''xyz''"
              "''https://app/cb?code=abc&state=xyz''"
              "newAttempt redirectFlow googleAuthenticator" exampleLink "[]"
              "idleState\<lparr>submitScript := [Resolves successResponse]\<rparr>" successResponse "[]"]
  by (simp add: callbackMessage_def exampleEnv_def expectedOrigin_def truthy_def
        newAttempt_def redirectFlow_def idleState_def codePayload_def exampleRequest_def
        exampleLink_def successResponse_def)

subsection \<open>PasskeyAssertionBridge\<close>

text \<open>
  Claim C8: for an authenticator that \<^verbatim>\<open>isPasskeyAuthenticator\<close> accepts, the challenge data
  read again inside the passkey branch is present and not empty, so the branch that
  throws the missing-challenge-data error is never taken; that error can only come from
  absent (falsy) challenge data. As \<^verbatim>\<open>handleAuthenticatorSelection\<close> enters the passkey branch
  only for such authenticators, no call of it, for any authenticator and any answers of
  the outside world, reports that error.
\<close>

theorem missing_challenge_data_unreachable:
  "(isPasskeyAuthenticator e a \<longrightarrow>
      (\<exists>c. c \<noteq> [] \<and> challengeDataOf a = Some c \<and> passkeyChallenge a = Inr c)) \<and>
   (passkeyChallenge b = Inl err \<longrightarrow> err = MissingChallengeData \<and> \<not> truthy (challengeDataOf b)) \<and>
   (missingChallengeReport \<notin> set (trace st) \<longrightarrow>
      missingChallengeReport \<notin> set (trace (handleAuthenticatorSelection e cf a' fd st)))"
proof (intro conjI impI)
  assume "isPasskeyAuthenticator e a"
  then show "\<exists>c. c \<noteq> [] \<and> challengeDataOf a = Some c \<and> passkeyChallenge a = Inr c"
    by (rule passkeyChallenge_classified)
next
  assume "passkeyChallenge b = Inl err"
  then show "err = MissingChallengeData"
    by (auto simp: passkeyChallenge_def split: option.splits if_splits)
next
  assume "passkeyChallenge b = Inl err"
  then show "\<not> truthy (challengeDataOf b)"
    by (auto simp: passkeyChallenge_def truthy_def split: option.splits if_splits)
next
  assume "missingChallengeReport \<notin> set (trace st)"
  then have "set (trace st) \<subseteq> - {missingChallengeReport}"
    by auto
  from handleAuthenticatorSelection_trace_within [OF subset_refl this]
  show "missingChallengeReport \<notin> set (trace (handleAuthenticatorSelection e cf a' fd st))"
    by auto
qed

theorem missing_challenge_data_unreachable_witness:
  "isPasskeyAuthenticator exampleEnv passkeyAuthenticator \<and>
   passkeyChallenge passkeyAuthenticator = Inr ''eyJjaGFsbGVuZ2UiOiJ4In0'' \<and>
   passkeyChallenge googleAuthenticator = Inl MissingChallengeData \<and>
   \<not> truthy (challengeDataOf googleAuthenticator) \<and>
   missingChallengeReport \<notin> set (trace idleState) \<and>
   missingChallengeReport \<notin>
     set (trace (handleAuthenticatorSelection exampleEnv (Some redirectFlow)
                   passkeyAuthenticator None idleState))"
proof -
  have classified: "isPasskeyAuthenticator exampleEnv passkeyAuthenticator"
    by (simp add: isPasskeyAuthenticator_def exampleEnv_def passkeyAuthenticator_def
          promptTypeOf_def challengeDataOf_def truthy_def)
  have absent: "passkeyChallenge googleAuthenticator = Inl MissingChallengeData"
    by (simp add: passkeyChallenge_def challengeDataOf_def googleAuthenticator_def)
  have clean: "missingChallengeReport \<notin> set (trace idleState)"
    by (simp add: idleState_def)
  from missing_challenge_data_unreachable
         [of exampleEnv passkeyAuthenticator googleAuthenticator MissingChallengeData
             idleState "Some redirectFlow" passkeyAuthenticator None]
       classified absent clean
  show ?thesis
    by (auto simp: challengeDataOf_def passkeyAuthenticator_def)
qed

subsection \<open>FlowController\<close>

text \<open>
  Claim C6 says that after a FailCompleted or FailIncomplete answer the controller is in a
  terminal failed state and a further submit fails fast. The code keeps no such state:
  the failure branch of \<^verbatim>\<open>handleSubmit\<close> only sets the error text, so the guard of lines
  461-463 still passes and the same form can be submitted again. At the input below a
  second \<^verbatim>\<open>handleSubmit\<close> after a FailIncomplete answer calls the transport again.
\<close>

theorem submit_after_failure_counterexample:
  "trace (handleSubmit exampleEnv [(''username'', ''alice'')]
            (handleSubmit exampleEnv [(''username'', ''alice'')]
               (formState\<lparr>submitScript := [Resolves failResponse, Resolves failResponse]\<rparr>))) =
   [OnSubmit (mkPayload basicFlow basicAuthenticator [(''username'', ''alice'')]) exampleRequest,
    OnFlowChange failResponse,
    OnSubmit (mkPayload basicFlow basicAuthenticator [(''username'', ''alice'')]) exampleRequest,
    OnFlowChange failResponse]"
  by (simp add: handleSubmit_def awaitOnSubmit_def Let_def touchAllFields_def finish_def
        validateForm_def formFields_def basicAuthenticator_def paramsOf_def
        fieldValidator_def valueOf_def formState_def idleState_def blank_def isWhitespace_def
        basicFlow_def failResponse_def exampleEnv_def exampleLink_def exampleRequest_def mkPayload_def)


text \<open>
  Claim C6 as amended: on a FailCompleted or FailIncomplete answer \<^verbatim>\<open>handleSubmit\<close> sets the
  same completion-failure text for both statuses (the answer itself still goes to
  \<^verbatim>\<open>onFlowChange\<close>), and leaves the current flow, the current authenticator and the form
  values as they were; a further \<^verbatim>\<open>handleSubmit\<close> is not rejected and calls the transport
  again for the same flow.
\<close>

theorem fail_status_reports_generic_error:
  assumes "currentFlow st = Some cf" and "currentAuthenticator st = Some ca"
    and "links cf = l # ls"
    and "validateForm e (formFields (Some ca)) (formValues st)"
    and "submitScript st = Resolves r # rest"
    and "flowStatus r = FailCompleted \<or> flowStatus r = FailIncomplete"
  shows "error (handleSubmit e v st) = Some (translate e ''errors.sign.in.flow.completion.failure'') \<and>
         currentFlow (handleSubmit e v st) = Some cf \<and>
         currentAuthenticator (handleSubmit e v st) = Some ca \<and>
         formValues (handleSubmit e v st) = formValues st \<and>
         trace (handleSubmit e v st) =
           trace st @ [OnSubmit (mkPayload cf ca v) \<lparr>reqMethod = linkMethod l, reqUrl = href l\<rparr>,
                       OnFlowChange r] \<and>
         (\<exists>tail. trace (handleSubmit e v' (handleSubmit e v st)) =
            trace (handleSubmit e v st) @
            OnSubmit (mkPayload cf ca v') \<lparr>reqMethod = linkMethod l, reqUrl = href l\<rparr> # tail)"
proof -
  have first: "handleSubmit e v st =
      st\<lparr>formTouched := True, isSignInInitializationRequestLoading := False,
         error := Some (translate e ''errors.sign.in.flow.completion.failure''), messages := [],
         trace := trace st @ [OnSubmit (mkPayload cf ca v) \<lparr>reqMethod = linkMethod l, reqUrl = href l\<rparr>,
                              OnFlowChange r],
         submitScript := rest\<rparr>"
    using assms
    by (auto simp: handleSubmit_def awaitOnSubmit_def Let_def touchAllFields_def finish_def)
  have again: "\<exists>tail. trace (handleSubmit e v' (handleSubmit e v st)) =
            trace (handleSubmit e v st) @
            OnSubmit (mkPayload cf ca v') \<lparr>reqMethod = linkMethod l, reqUrl = href l\<rparr> # tail"
    by (rule handleSubmit_calls_transport) (simp_all add: first assms)
  from again assms(1,2) show ?thesis
    by (simp add: first)
qed

theorem fail_status_reports_generic_error_witness:
  "error (handleSubmit exampleEnv [(''username'', ''alice'')]
            (formState\<lparr>submitScript := [Resolves failResponse]\<rparr>)) =
     Some ''errors.sign.in.flow.completion.failure'' \<and>
   currentAuthenticator (handleSubmit exampleEnv [(''username'', ''alice'')]
            (formState\<lparr>submitScript := [Resolves failResponse]\<rparr>)) = Some basicAuthenticator"
proof -
  have valid: "validateForm exampleEnv (formFields (Some basicAuthenticator))
                 (formValues (formState\<lparr>submitScript := [Resolves failResponse]\<rparr>))"
    by (simp add: validateForm_def formFields_def basicAuthenticator_def paramsOf_def
          fieldValidator_def valueOf_def formState_def idleState_def blank_def isWhitespace_def)
  from fail_status_reports_generic_error
         [of "formState\<lparr>submitScript := [Resolves failResponse]\<rparr>" basicFlow basicAuthenticator
             exampleLink "[]" exampleEnv failResponse "[]" "[(''username'', ''alice'')]", OF _ _ _ valid]
  show ?thesis
    by (simp add: formState_def idleState_def basicFlow_def failResponse_def exampleEnv_def)
qed

text \<open>
  Claim C4 says that every flow response whose step offers exactly one authenticator makes
  the controller advance to that authenticator and derive its fields. \<^verbatim>\<open>handleSubmit\<close> tests
  \<^verbatim>\<open>handleRedirectionIfNeeded\<close> first: when the sole authenticator is a redirect authenticator
  with a redirect address, it opens the popup and returns, and neither the current flow nor
  the current authenticator is replaced. At the input below the form of the previous
  authenticator stays current.
\<close>

theorem redirect_step_not_advanced_counterexample:
  "nextStep redirectFlow =
     Some \<lparr>stepType = AuthenticatorPrompt, authenticators = [googleAuthenticator],
           stepMessages = None\<rparr> \<and>
   currentAuthenticator
     (handleSubmit exampleEnv [(''username'', ''alice'')]
        (formState\<lparr>submitScript := [Resolves redirectFlow]\<rparr>)) = Some basicAuthenticator \<and>
   currentFlow
     (handleSubmit exampleEnv [(''username'', ''alice'')]
        (formState\<lparr>submitScript := [Resolves redirectFlow]\<rparr>)) = Some basicFlow \<and>
   basicAuthenticator \<noteq> googleAuthenticator"
  by (simp add: handleSubmit_def awaitOnSubmit_def Let_def touchAllFields_def finish_def
        handleRedirectionIfNeeded_def newAttempt_def promptTypeOf_def redirectUrlOf_def truthy_def
        validateForm_def formFields_def basicAuthenticator_def paramsOf_def
        fieldValidator_def valueOf_def formState_def idleState_def blank_def isWhitespace_def
        basicFlow_def redirectFlow_def googleAuthenticator_def exampleEnv_def exampleLink_def)

text \<open>
  Claim C4 as amended: for a response whose step offers exactly one authenticator, the
  component never renders the choose-one view, from initialize or from \<^verbatim>\<open>handleSubmit\<close>; the
  initialize effect advances to that authenticator unless the status is SuccessCompleted;
  \<^verbatim>\<open>handleSubmit\<close> advances to it when the status is InProgress, the response carries a flow
  id and the step is not handed to the redirect popup. Advancing sets the current
  authenticator and resets the form to its declared parameters, all empty. When an
  in-progress step is handed to the redirect popup, the current flow, the current
  authenticator and the form values are left as they were, and one redirect attempt is
  started for the previous flow and the step's authenticator.
\<close>

theorem single_authenticator_auto_advance:
  assumes "nextStep r = Some s" and "authenticators s = [a]"
  shows "(onInitializeResult e = Some (Resolves r) \<and> \<not> isLoading e st \<and> \<not> reRenderCheckRef st \<longrightarrow>
            \<not> isChooseOne (render e (initialize e st)) \<and>
            (flowStatus r \<noteq> SuccessCompleted \<longrightarrow> advancedTo a (initialize e st))) \<and>
         (currentFlow st = Some cf \<and> currentAuthenticator st = Some ca \<and> links cf = l # ls \<and>
          validateForm e (formFields (Some ca)) (formValues st) \<and>
          submitScript st = Resolves r # rest \<longrightarrow>
            \<not> isChooseOne (render e (handleSubmit e v st)) \<and>
            (flowStatus r = InProgress \<and> flowId r \<noteq> None \<and> \<not> redirectHandOff e s \<longrightarrow>
               advancedTo a (handleSubmit e v st)) \<and>
            (flowStatus r = InProgress \<and> redirectHandOff e s \<longrightarrow>
               currentFlow (handleSubmit e v st) = Some cf \<and>
               currentAuthenticator (handleSubmit e v st) = Some ca \<and>
               formValues (handleSubmit e v st) = formValues st \<and>
               attempts (handleSubmit e v st) = attempts st @ [newAttempt cf a]))"
proof (intro conjI impI)
  assume pre: "onInitializeResult e = Some (Resolves r) \<and> \<not> isLoading e st \<and> \<not> reRenderCheckRef st"
  show "\<not> isChooseOne (render e (initialize e st))"
  proof (cases "flowStatus r = SuccessCompleted")
    case True
    with pre assms have "currentFlow (initialize e st) = Some r"
      by (simp add: initialize_def Let_def)
    from render_single [OF this assms(1)] assms(2) show ?thesis by simp
  next
    case False
    with pre assms have "currentAuthenticator (initialize e st) \<noteq> None"
      by (simp add: initialize_def Let_def)
    then show ?thesis by (rule render_selected)
  qed
  show "advancedTo a (initialize e st)" if "flowStatus r \<noteq> SuccessCompleted"
    using pre assms that
    by (simp add: initialize_def Let_def advancedTo_frame advancedTo_setupFormFields)
next
  assume pre: "currentFlow st = Some cf \<and> currentAuthenticator st = Some ca \<and> links cf = l # ls \<and>
          validateForm e (formFields (Some ca)) (formValues st) \<and>
          submitScript st = Resolves r # rest"
  have "currentAuthenticator (handleSubmit e v st) \<noteq> None"
    using pre assms
    by (auto simp: handleSubmit_def awaitOnSubmit_def Let_def touchAllFields_def
          split: prod.split option.split bool.split dest!: redirect_frame)
  then show "\<not> isChooseOne (render e (handleSubmit e v st))"
    by (rule render_selected)
  show "advancedTo a (handleSubmit e v st)"
    if "flowStatus r = InProgress \<and> flowId r \<noteq> None \<and> \<not> redirectHandOff e s"
    using pre assms that
    by (auto simp: handleSubmit_def awaitOnSubmit_def Let_def touchAllFields_def
          advancedTo_frame advancedTo_setupFormFields
          split: prod.split bool.split dest!: redirect_frame
          intro!: advancedTo_setupFormFields)
  {
    assume off: "flowStatus r = InProgress \<and> redirectHandOff e s"
    from handleSubmit_hand_off [of st cf ca l ls e r rest s a v] pre assms off
    show "currentFlow (handleSubmit e v st) = Some cf"
      and "currentAuthenticator (handleSubmit e v st) = Some ca"
      and "formValues (handleSubmit e v st) = formValues st"
      and "attempts (handleSubmit e v st) = attempts st @ [newAttempt cf a]"
      by simp_all
  }
qed

theorem single_authenticator_auto_advance_witness:
  "advancedTo basicAuthenticator (initialize (initEnv basicFlow) freshState) \<and>
   \<not> isChooseOne (render (initEnv basicFlow) (initialize (initEnv basicFlow) freshState)) \<and>
   map fieldName (formFields (currentAuthenticator (initialize (initEnv basicFlow) freshState))) =
     [''username''] \<and>
   advancedTo basicAuthenticator
     (handleSubmit exampleEnv [(''username'', ''alice'')]
        (formState\<lparr>submitScript := [Resolves basicFlow]\<rparr>)) \<and>
   \<not> isChooseOne (render exampleEnv
     (handleSubmit exampleEnv [(''username'', ''alice'')]
        (formState\<lparr>submitScript := [Resolves basicFlow]\<rparr>))) \<and>
   redirectHandOff exampleEnv
     \<lparr>stepType = AuthenticatorPrompt, authenticators = [googleAuthenticator], stepMessages = None\<rparr> \<and>
   currentFlow
     (handleSubmit exampleEnv [(''username'', ''alice'')]
        (formState\<lparr>submitScript := [Resolves redirectFlow]\<rparr>)) = Some basicFlow \<and>
   currentAuthenticator
     (handleSubmit exampleEnv [(''username'', ''alice'')]
        (formState\<lparr>submitScript := [Resolves redirectFlow]\<rparr>)) = Some basicAuthenticator \<and>
   attempts
     (handleSubmit exampleEnv [(''username'', ''alice'')]
        (formState\<lparr>submitScript := [Resolves redirectFlow]\<rparr>)) =
     [newAttempt basicFlow googleAuthenticator]"
proof -
  have step: "nextStep basicFlow =
      Some \<lparr>stepType = AuthenticatorPrompt, authenticators = [basicAuthenticator], stepMessages = None\<rparr>"
    by (simp add: basicFlow_def)
  have noHandOff: "\<not> redirectHandOff exampleEnv
      \<lparr>stepType = AuthenticatorPrompt, authenticators = [basicAuthenticator], stepMessages = None\<rparr>"
    by (simp add: redirectHandOff_def promptTypeOf_def basicAuthenticator_def)
  have redirectStep: "nextStep redirectFlow =
      Some \<lparr>stepType = AuthenticatorPrompt, authenticators = [googleAuthenticator], stepMessages = None\<rparr>"
    by (simp add: redirectFlow_def)
  have handOff: "redirectHandOff exampleEnv
      \<lparr>stepType = AuthenticatorPrompt, authenticators = [googleAuthenticator], stepMessages = None\<rparr>"
    by (simp add: redirectHandOff_def promptTypeOf_def redirectUrlOf_def truthy_def
          googleAuthenticator_def exampleEnv_def)
  from single_authenticator_auto_advance [OF step, of basicAuthenticator "initEnv basicFlow" freshState]
  have init: "advancedTo basicAuthenticator (initialize (initEnv basicFlow) freshState) \<and>
      \<not> isChooseOne (render (initEnv basicFlow) (initialize (initEnv basicFlow) freshState))"
    by (simp add: initEnv_def exampleEnv_def freshState_def idleState_def isLoading_def basicFlow_def)
  from single_authenticator_auto_advance [OF step, of basicAuthenticator exampleEnv
         "formState\<lparr>submitScript := [Resolves basicFlow]\<rparr>" basicFlow basicAuthenticator
         exampleLink "[]" "[]" "[(''username'', ''alice'')]"]
       formState_valid noHandOff
  have submit: "advancedTo basicAuthenticator
       (handleSubmit exampleEnv [(''username'', ''alice'')]
          (formState\<lparr>submitScript := [Resolves basicFlow]\<rparr>)) \<and>
     \<not> isChooseOne (render exampleEnv
       (handleSubmit exampleEnv [(''username'', ''alice'')]
          (formState\<lparr>submitScript := [Resolves basicFlow]\<rparr>)))"
    by (simp add: formState_def idleState_def basicFlow_def)
  from single_authenticator_auto_advance [OF redirectStep, of googleAuthenticator exampleEnv
         "formState\<lparr>submitScript := [Resolves redirectFlow]\<rparr>" basicFlow basicAuthenticator
         exampleLink "[]" "[]" "[(''username'', ''alice'')]"]
       formState_valid handOff
  have handedOff: "currentFlow
     (handleSubmit exampleEnv [(''username'', ''alice'')]
        (formState\<lparr>submitScript := [Resolves redirectFlow]\<rparr>)) = Some basicFlow \<and>
   currentAuthenticator
     (handleSubmit exampleEnv [(''username'', ''alice'')]
        (formState\<lparr>submitScript := [Resolves redirectFlow]\<rparr>)) = Some basicAuthenticator \<and>
   attempts
     (handleSubmit exampleEnv [(''username'', ''alice'')]
        (formState\<lparr>submitScript := [Resolves redirectFlow]\<rparr>)) =
     [newAttempt basicFlow googleAuthenticator]"
    by (simp add: formState_def idleState_def basicFlow_def redirectFlow_def)
  from init have "map fieldName (formFields (currentAuthenticator (initialize (initEnv basicFlow) freshState))) =
     [''username'']"
    by (simp add: advancedTo_def paramsOf_def basicAuthenticator_def formFields_def)
  with init submit handedOff handOff show ?thesis by simp
qed




text \<open>
  Claim C9 says that a form submission with a missing required field is settled locally
  and never reaches the transport. \<^verbatim>\<open>handleSubmit\<close> does that: the form it validates has the
  fields of the current authenticator. The inline forms of the choose-one view are
  submitted through \<^verbatim>\<open>handleAuthenticatorSelection\<close>, which calls \<^verbatim>\<open>validateForm\<close> too, but that
  view is rendered only while there is no current authenticator, so the form has no fields
  and nothing is validated. At the input below the required field \<open>username\<close> holds one
  space: the inline form sends it to \<^verbatim>\<open>onSubmit\<close>, while \<^verbatim>\<open>handleSubmit\<close> on the same value calls
  nothing.
\<close>

theorem inline_form_submits_blank_required_field:
  "render exampleEnv choiceState = ChooseOneView [basicAuthenticator] [] \<and>
   requiredParams basicAuthenticator = [''username''] \<and>
   blank '' '' \<and>
   formFields (currentAuthenticator choiceState) = [] \<and>
   trace (selectAuthenticator exampleEnv basicAuthenticator (Some [(''username'', '' '')])
            (choiceState\<lparr>formValues := [(''username'', '' '')],
                          submitScript := [Resolves failResponse]\<rparr>)) =
     [OnSubmit (mkPayload multiOptionsFlow basicAuthenticator [(''username'', '' '')]) exampleRequest,
      OnFlowChange failResponse] \<and>
   trace (handleSubmit exampleEnv [(''username'', '' '')]
            (formState\<lparr>formValues := [(''username'', '' '')],
                        submitScript := [Resolves failResponse]\<rparr>)) = []"
proof -
  have view: "render exampleEnv choiceState = ChooseOneView [basicAuthenticator] []"
    by (simp add: render_def choiceState_def idleState_def hasMultipleOptions_def
          multiOptionsFlow_def getAvailableAuthenticators_def userPromptAuthenticators_def
          optionAuthenticators_def isDirectInput_def promptTypeOf_def paramsOf_def
          basicAuthenticator_def ssoAuthenticator_def HIDDEN_AUTHENTICATORS_def)
  have inline: "trace (selectAuthenticator exampleEnv basicAuthenticator (Some [(''username'', '' '')])
            (choiceState\<lparr>formValues := [(''username'', '' '')],
                          submitScript := [Resolves failResponse]\<rparr>)) =
     [OnSubmit (mkPayload multiOptionsFlow basicAuthenticator [(''username'', '' '')]) exampleRequest,
      OnFlowChange failResponse]"
    unfolding selectAuthenticator_def
    by (subst handleAuthenticatorSelection.simps)
       (simp add: choiceState_def idleState_def multiOptionsFlow_def isPasskeyAuthenticator_def
          exampleEnv_def basicAuthenticator_def promptTypeOf_def touchAllFields_def
          validateForm_def formFields_def awaitOnSubmit_def exampleLink_def Let_def
          failResponse_def finish_def mkPayload_def exampleRequest_def)
  have form: "trace (handleSubmit exampleEnv [(''username'', '' '')]
            (formState\<lparr>formValues := [(''username'', '' '')],
                        submitScript := [Resolves failResponse]\<rparr>)) = []"
    by (subst handleSubmit_rejects_blank_required
          [of _ basicFlow basicAuthenticator "\<lparr>param = ''username''\<rparr>"])
       (simp_all add: formState_def idleState_def basicAuthenticator_def paramsOf_def
          valueOf_def blank_def isWhitespace_def touchAllFields_def)
  from view inline form show ?thesis
    by (simp add: basicAuthenticator_def blank_def isWhitespace_def choiceState_def
          idleState_def formFields_def)
qed

text \<open>
  A run of passkey steps that starts with a call of \<^verbatim>\<open>handleAuthenticatorSelection\<close> for its
  first passkey, as made when the user picks the passkey in the choose-one view or by the
  recursion of lines 617-623, 726-732 and 797-803. With \<open>chain\<close> the steps that follow the
  first, the call re-invokes itself for each of them: one ceremony and one submission per
  step, alternating, and nothing else is called between them but \<^verbatim>\<open>onFlowChange\<close>. While the
  run lasts (its last submission not yet answered) the current authenticator and the form
  values are the ones the run started with: no form is set up for the steps in between.
  Every submission of the run carries the flow id and link the first call closed over.
\<close>

lemma selected_passkey_runs_chain:
  assumes "passkeyRun e a chain"
    and "length tokens = Suc (length chain)"
    and "webAuthnScript st = map Resolves tokens @ laterCeremonies"
    and "submitScript st = map (\<lambda>x. Resolves (fst x)) chain @ final"
    and "endsRun e final"
    and "links cf = l # ls"
  shows "length (filter isWebAuthn (trace (handleAuthenticatorSelection e (Some cf) a fd st))) =
           length (filter isWebAuthn (trace st)) + Suc (length chain) \<and>
         length (filter isOnSubmit (trace (handleAuthenticatorSelection e (Some cf) a fd st))) =
           length (filter isOnSubmit (trace st)) + Suc (length chain) \<and>
         (\<exists>tail. trace (handleAuthenticatorSelection e (Some cf) a fd st) =
                   trace st @ runEvents cf l a tokens chain @ tail \<and>
                 list_all (\<lambda>ev. \<not> isWebAuthn ev \<and> \<not> isOnSubmit ev) tail) \<and>
         (final = [] \<longrightarrow>
            trace (handleAuthenticatorSelection e (Some cf) a fd st) =
              trace st @ runEvents cf l a tokens chain \<and>
            currentAuthenticator (handleAuthenticatorSelection e (Some cf) a fd st) =
              currentAuthenticator st \<and>
            formValues (handleAuthenticatorSelection e (Some cf) a fd st) = formValues st)"
proof -
  from passkey_run_trace [OF assms, of fd] obtain tail where tail:
    "trace (handleAuthenticatorSelection e (Some cf) a fd st) =
       trace st @ runEvents cf l a tokens chain @ tail"
    "list_all (\<lambda>ev. \<not> isWebAuthn ev \<and> \<not> isOnSubmit ev) tail"
    "final = [] \<longrightarrow>
       tail = [] \<and>
       currentAuthenticator (handleAuthenticatorSelection e (Some cf) a fd st) =
         currentAuthenticator st \<and>
       formValues (handleAuthenticatorSelection e (Some cf) a fd st) = formValues st"
    by blast
  from tail(2) have none: "filter isWebAuthn tail = []" "filter isOnSubmit tail = []"
    by (simp_all add: list_all_iff filter_empty_conv)
  from count_runEvents [OF assms(2), of cf l a] tail none show ?thesis
    by auto
qed

text \<open>Two passkey steps, the first one picked in the choose-one view.\<close>

lemma selected_passkey_runs_chain_example:
  "render exampleEnv passkeyChoiceState = ChooseOneView [basicAuthenticator] [passkeyAuthenticator] \<and>
   trace (selectAuthenticator exampleEnv passkeyAuthenticator None
        (passkeyChoiceState\<lparr>submitScript := [Resolves secondPasskeyFlow]\<rparr>)) =
     [WebAuthn ''eyJjaGFsbGVuZ2UiOiJ4In0'',
      OnSubmit (mkPayload passkeyChoiceFlow passkeyAuthenticator [(''tokenResponse'', ''assertion-1'')])
        exampleRequest,
      OnFlowChange secondPasskeyFlow,
      WebAuthn ''eyJjaGFsbGVuZ2UiOiJ5In0'',
      OnSubmit (mkPayload passkeyChoiceFlow secondPasskey [(''tokenResponse'', ''assertion-2'')])
        exampleRequest] \<and>
   currentAuthenticator (selectAuthenticator exampleEnv passkeyAuthenticator None
        (passkeyChoiceState\<lparr>submitScript := [Resolves secondPasskeyFlow]\<rparr>)) = None"
proof -
  have first: "isPasskeyAuthenticator exampleEnv passkeyAuthenticator"
    by (simp add: isPasskeyAuthenticator_def exampleEnv_def passkeyAuthenticator_def
          promptTypeOf_def challengeDataOf_def truthy_def)
  have second: "isPasskeyAuthenticator exampleEnv secondPasskey"
    by (simp add: isPasskeyAuthenticator_def exampleEnv_def secondPasskey_def
          promptTypeOf_def challengeDataOf_def truthy_def)
  have run: "passkeyRun exampleEnv passkeyAuthenticator [(secondPasskeyFlow, secondPasskey)]"
    using first second by (simp add: passkeyStep_def secondPasskeyFlow_def)
  have challenges: "orDefault (challengeDataOf passkeyAuthenticator) [] = ''eyJjaGFsbGVuZ2UiOiJ4In0''"
    "orDefault (challengeDataOf secondPasskey) [] = ''eyJjaGFsbGVuZ2UiOiJ5In0''"
    by (simp_all add: orDefault_def challengeDataOf_def passkeyAuthenticator_def secondPasskey_def)
  have links: "links passkeyChoiceFlow = exampleLink # []"
    by (simp add: passkeyChoiceFlow_def)
  have view: "render exampleEnv passkeyChoiceState =
      ChooseOneView [basicAuthenticator] [passkeyAuthenticator]"
    by (simp add: render_def passkeyChoiceState_def idleState_def hasMultipleOptions_def
          passkeyChoiceFlow_def getAvailableAuthenticators_def userPromptAuthenticators_def
          optionAuthenticators_def isDirectInput_def promptTypeOf_def paramsOf_def
          basicAuthenticator_def passkeyAuthenticator_def HIDDEN_AUTHENTICATORS_def)
  from selected_passkey_runs_chain
         [OF run, of "[''assertion-1'', ''assertion-2'']"
             "passkeyChoiceState\<lparr>submitScript := [Resolves secondPasskeyFlow]\<rparr>"
             "[]" "[]" passkeyChoiceFlow exampleLink "[]" None, OF _ _ _ _ links]
  have pending: "trace (handleAuthenticatorSelection exampleEnv (Some passkeyChoiceFlow)
        passkeyAuthenticator None
        (passkeyChoiceState\<lparr>submitScript := [Resolves secondPasskeyFlow]\<rparr>)) =
     [WebAuthn ''eyJjaGFsbGVuZ2UiOiJ4In0'',
      OnSubmit (mkPayload passkeyChoiceFlow passkeyAuthenticator [(''tokenResponse'', ''assertion-1'')])
        exampleRequest,
      OnFlowChange secondPasskeyFlow,
      WebAuthn ''eyJjaGFsbGVuZ2UiOiJ5In0'',
      OnSubmit (mkPayload passkeyChoiceFlow secondPasskey [(''tokenResponse'', ''assertion-2'')])
        exampleRequest] \<and>
   currentAuthenticator (handleAuthenticatorSelection exampleEnv (Some passkeyChoiceFlow)
        passkeyAuthenticator None
        (passkeyChoiceState\<lparr>submitScript := [Resolves secondPasskeyFlow]\<rparr>)) = None"
    by (simp add: passkeyChoiceState_def idleState_def challenges exampleRequest_def exampleLink_def)
  have closure: "currentFlow (passkeyChoiceState\<lparr>submitScript := [Resolves secondPasskeyFlow]\<rparr>) =
      Some passkeyChoiceFlow"
    by (simp add: passkeyChoiceState_def)
  from view pending show ?thesis
    by (simp add: selectAuthenticator_def closure)
qed

text \<open>
  The passkey view and the hooks rule. A render with no current authenticator calls no
  conditional hook, the passkey branch calls one, the form branch none. So from the first
  render on, whose state has no current authenticator, no render that commits is the
  passkey view, and the effect of lines 1124-1126 never runs.
\<close>

lemma mount_without_effect_hook:
  "currentAuthenticator st = None \<Longrightarrow> conditionalHooks e st = 0"
  by (simp add: conditionalHooks_def render_def)

lemma passkey_branch_calls_effect_hook:
  "currentAuthenticator st = Some a \<Longrightarrow> isPasskeyAuthenticator e a \<Longrightarrow> \<not> isLoading e st \<Longrightarrow>
     conditionalHooks e st = 1"
  by (simp add: conditionalHooks_def render_def)

lemma form_branch_without_effect_hook:
  "currentAuthenticator st = Some a \<Longrightarrow> \<not> isPasskeyAuthenticator e a \<Longrightarrow>
     conditionalHooks e st = 0"
  by (simp add: conditionalHooks_def render_def)

lemma passkeyEffect_never_runs:
  "conditionalHooks e previous = 0 \<Longrightarrow> passkeyEffect e previous st = st"
  by (auto simp: passkeyEffect_def rerender_def conditionalHooks_def
        split: render_result.splits view.splits)

lemma passkey_view_never_commits:
  "conditionalHooks e previous = 0 \<Longrightarrow> commits e previous sts \<Longrightarrow>
     list_all (\<lambda>st. conditionalHooks e st = 0 \<and> (\<forall>a. render e st \<noteq> PasskeyView a)) sts"
proof (induction sts arbitrary: previous)
  case Nil
  then show ?case by simp
next
  case (Cons st sts)
  from Cons.prems have same: "conditionalHooks e st = 0" and later: "commits e st sts"
    by (auto simp: rerender_def split: if_splits)
  from same have "\<forall>a. render e st \<noteq> PasskeyView a"
    by (auto simp: conditionalHooks_def)
  with same Cons.IH [OF same later] show ?case
    by simp
qed

text \<open>
  Claim C7 says that for every run of N \<ge> 2 consecutive passkey steps the ceremony is
  started automatically for each step: N ceremonies, N submissions. The code means to do
  that (line 1121: "auto-trigger it instead of showing a form"), but when the first passkey
  step of a run is delivered by \<^verbatim>\<open>initialize\<close> (lines 936-938) or by \<^verbatim>\<open>handleSubmit\<close> (lines
  521-523), nothing calls \<^verbatim>\<open>handleAuthenticatorSelection\<close> but the effect of lines 1124-1126,
  and that effect is a hook called behind three \<^verbatim>\<open>return\<close>s. Below, the server answers
  \<^verbatim>\<open>onInitialize\<close>, and in the second half a form submission, with a step whose sole
  authenticator is a passkey. The passkey becomes the current authenticator; the render
  that follows calls one hook more than the render before, so React throws and commits
  nothing; the effect does not run. The trace ends with \<^verbatim>\<open>onFlowChange\<close>: no ceremony is
  started and the assertion is never submitted, however many passkey steps the server
  would have sent next.
\<close>

theorem delivered_passkey_step_starts_no_ceremony:
  "isPasskeyAuthenticator exampleEnv passkeyAuthenticator \<and>
   currentAuthenticator (initialize (initEnv passkeyFlow) freshState) = Some passkeyAuthenticator \<and>
   rerender (initEnv passkeyFlow) freshState (initialize (initEnv passkeyFlow) freshState) =
     HooksChanged \<and>
   passkeyEffect (initEnv passkeyFlow) freshState (initialize (initEnv passkeyFlow) freshState) =
     initialize (initEnv passkeyFlow) freshState \<and>
   trace (initialize (initEnv passkeyFlow) freshState) = [OnInitialize, OnFlowChange passkeyFlow] \<and>
   currentAuthenticator
     (handleSubmit exampleEnv [(''username'', ''alice'')]
        (formState\<lparr>submitScript := [Resolves passkeyFlow]\<rparr>)) = Some passkeyAuthenticator \<and>
   rerender exampleEnv formState
     (handleSubmit exampleEnv [(''username'', ''alice'')]
        (formState\<lparr>submitScript := [Resolves passkeyFlow]\<rparr>)) = HooksChanged \<and>
   passkeyEffect exampleEnv formState
     (handleSubmit exampleEnv [(''username'', ''alice'')]
        (formState\<lparr>submitScript := [Resolves passkeyFlow]\<rparr>)) =
     handleSubmit exampleEnv [(''username'', ''alice'')]
        (formState\<lparr>submitScript := [Resolves passkeyFlow]\<rparr>) \<and>
   trace (handleSubmit exampleEnv [(''username'', ''alice'')]
        (formState\<lparr>submitScript := [Resolves passkeyFlow]\<rparr>)) =
     [OnSubmit (mkPayload basicFlow basicAuthenticator [(''username'', ''alice'')]) exampleRequest,
      OnFlowChange passkeyFlow]"
proof -
  let ?init = "initialize (initEnv passkeyFlow) freshState"
  let ?sub = "handleSubmit exampleEnv [(''username'', ''alice'')]
        (formState\<lparr>submitScript := [Resolves passkeyFlow]\<rparr>)"
  have classified: "isPasskeyAuthenticator exampleEnv passkeyAuthenticator"
    by (simp add: isPasskeyAuthenticator_def exampleEnv_def passkeyAuthenticator_def
          promptTypeOf_def challengeDataOf_def truthy_def)
  have classified': "isPasskeyAuthenticator (initEnv passkeyFlow) passkeyAuthenticator"
    using classified by (simp add: isPasskeyAuthenticator_def initEnv_def)
  have notForm: "\<not> isPasskeyAuthenticator exampleEnv basicAuthenticator"
    by (simp add: isPasskeyAuthenticator_def exampleEnv_def basicAuthenticator_def)
  have initialized: "?init =
      freshState\<lparr>reRenderCheckRef := True, isInitialized := True, currentFlow := Some passkeyFlow,
                  currentAuthenticator := Some passkeyAuthenticator,
                  trace := [OnInitialize, OnFlowChange passkeyFlow]\<rparr>"
    by (simp add: initialize_def initEnv_def exampleEnv_def freshState_def idleState_def
          isLoading_def passkeyFlow_def Let_def finish_def setStepMessages_def
          setupFormFields_def paramsOf_def passkeyAuthenticator_def)
  have settled: "\<not> isSignInInitializationRequestLoading ?init"
    by (subst initialized) (simp add: freshState_def idleState_def)
  have idle: "\<not> isLoading (initEnv passkeyFlow) ?init"
    using settled by (simp add: isLoading_def initEnv_def exampleEnv_def)
  have selected: "currentAuthenticator ?init = Some passkeyAuthenticator"
    by (simp add: initialized)
  have logged: "trace ?init = [OnInitialize, OnFlowChange passkeyFlow]"
    by (simp add: initialized)
  have mounted: "conditionalHooks (initEnv passkeyFlow) freshState = 0"
    by (rule mount_without_effect_hook) (simp add: freshState_def idleState_def)
  have passkeyView: "conditionalHooks (initEnv passkeyFlow) ?init = 1"
    using selected classified' idle by (rule passkey_branch_calls_effect_hook)
  have submitted: "?sub =
      formState\<lparr>formTouched := False, formValues := [], currentFlow := Some passkeyFlow,
                 currentAuthenticator := Some passkeyAuthenticator,
                 trace := [OnSubmit (mkPayload basicFlow basicAuthenticator [(''username'', ''alice'')])
                             exampleRequest,
                           OnFlowChange passkeyFlow]\<rparr>"
    using formState_valid [of exampleEnv "[Resolves passkeyFlow]"]
    by (simp add: handleSubmit_def awaitOnSubmit_def Let_def touchAllFields_def finish_def
          handleRedirectionIfNeeded_def promptTypeOf_def setStepMessages_def setupFormFields_def
          paramsOf_def formState_def idleState_def basicFlow_def passkeyFlow_def
          passkeyAuthenticator_def exampleLink_def exampleRequest_def)
  have settled': "\<not> isSignInInitializationRequestLoading ?sub"
    by (subst submitted) (simp add: formState_def idleState_def)
  have idle': "\<not> isLoading exampleEnv ?sub"
    using settled' by (simp add: isLoading_def exampleEnv_def)
  have selected': "currentAuthenticator ?sub = Some passkeyAuthenticator"
    by (simp add: submitted)
  have logged': "trace ?sub =
      [OnSubmit (mkPayload basicFlow basicAuthenticator [(''username'', ''alice'')]) exampleRequest,
       OnFlowChange passkeyFlow]"
    by (simp add: submitted)
  have formView: "conditionalHooks exampleEnv formState = 0"
    by (rule form_branch_without_effect_hook [OF _ notForm])
       (simp add: formState_def idleState_def)
  have passkeyView': "conditionalHooks exampleEnv ?sub = 1"
    using selected' classified idle' by (rule passkey_branch_calls_effect_hook)
  show ?thesis
    using classified selected logged selected' logged'
    by (simp add: rerender_def passkeyEffect_def mounted passkeyView formView passkeyView')
qed

end
